theory Spec2Isabelle
  imports Main
begin

section \<open>JavaScript values at the network boundary\<close>

text \<open>
  The API client (\<^verbatim>\<open>src/services/api.ts\<close>) receives a response from \<^verbatim>\<open>fetch\<close>, decodes
  its text with \<^verbatim>\<open>response.json()\<close> or \<^verbatim>\<open>JSON.parse\<close>, and inspects the decoded value
  with property reads, truthiness tests, \<^verbatim>\<open>Array.isArray\<close> and \<^verbatim>\<open>typeof\<close>.  Decoded values
  are JSON values.  Numbers are kept as integers: the client only ever tests a number
  for being zero.  An object is the association list of its own properties.
\<close>

datatype json =
    JNull
  | JBool bool
  | JNum int
  | JStr string
  | JArr "json list"
  | JObj "(string \<times> json) list"

text \<open>
  What a call can throw.  \<open>Error v\<close> is \<^verbatim>\<open>new Error(v)\<close>: its message is the string
  conversion of \<open>v\<close>, which is \<open>s\<close> itself for \<open>v = JStr s\<close>.  \<open>SyntaxError\<close> is the
  decode failure of \<^verbatim>\<open>JSON.parse\<close> and \<^verbatim>\<open>response.json()\<close>, \<open>TypeError\<close> a property read
  on \<^verbatim>\<open>null\<close> or a call of something that is not a function, \<open>FetchRejected\<close> the
  rejection of \<^verbatim>\<open>fetch\<close> itself (no response arrived).  The last two constructors are
  thrown values that are not \<^verbatim>\<open>Error\<close> instances; \<^verbatim>\<open>handleApiError\<close> has branches for them.
\<close>

datatype thrown =
    Error json
  | SyntaxError
  | TypeError
  | FetchRejected
  | ThrownString string
  | ThrownOther

text \<open>
  The outcome of \<^verbatim>\<open>await fetch(...)\<close>: the promise rejects, or a response with a status
  code and a body text arrives.  The request (URL, method, headers, body) only decides
  which outcome the environment produces.
\<close>

datatype fetched = NetworkFailure | Response nat string

text \<open>
  \<^verbatim>\<open>JSON.parse\<close> belongs to the platform, so every client function takes it as a
  parameter: \<open>decode v = None\<close> when \<^verbatim>\<open>JSON.parse(v)\<close> throws, \<open>Some r\<close> when it returns
  \<open>r\<close>.  The argument is a JavaScript value because the client also hands non-strings to
  \<^verbatim>\<open>JSON.parse\<close>.
\<close>

type_synonym decoder = "json \<Rightarrow> json option"

definition ok :: "nat \<Rightarrow> bool" where
  "ok st \<longleftrightarrow> 200 \<le> st \<and> st \<le> 299"

definition JSON_parse :: "decoder \<Rightarrow> json \<Rightarrow> thrown + json" where
  "JSON_parse decode v = (case decode v of None \<Rightarrow> Inl SyntaxError | Some r \<Rightarrow> Inr r)"

definition response_json :: "decoder \<Rightarrow> string \<Rightarrow> thrown + json" where
  "response_json decode txt = JSON_parse decode (JStr txt)"

text \<open>
  A property read \<^verbatim>\<open>v.k\<close>: a \<open>TypeError\<close> on \<^verbatim>\<open>null\<close>, the property's value on an object
  that has it, \<^verbatim>\<open>undefined\<close> (\<open>None\<close>) otherwise.  The client reads \<^verbatim>\<open>body\<close>, \<^verbatim>\<open>error\<close> and
  \<^verbatim>\<open>recommendations\<close> only, none of which is a built-in property of arrays, strings,
  numbers or booleans.
\<close>

fun get_prop :: "json \<Rightarrow> string \<Rightarrow> thrown + json option" where
  "get_prop JNull k = Inl TypeError"
| "get_prop (JObj kvs) k = Inr (map_of kvs k)"
| "get_prop v k = Inr None"

fun truthy :: "json \<Rightarrow> bool" where
  "truthy JNull = False"
| "truthy (JBool b) = b"
| "truthy (JNum n) = (n \<noteq> 0)"
| "truthy (JStr s) = (s \<noteq> [])"
| "truthy (JArr xs) = True"
| "truthy (JObj kvs) = True"

text \<open>The value of a possibly undefined expression when it is truthy.\<close>

definition truthy_value :: "json option \<Rightarrow> json option" where
  "truthy_value v = (case v of None \<Rightarrow> None | Some x \<Rightarrow> if truthy x then Some x else None)"

text \<open>\<^verbatim>\<open>v || fallback\<close>.\<close>

definition or_else :: "json option \<Rightarrow> json \<Rightarrow> json" where
  "or_else v fallback = (case truthy_value v of Some x \<Rightarrow> x | None \<Rightarrow> fallback)"

fun isArray :: "json \<Rightarrow> bool" where
  "isArray (JArr xs) = True"
| "isArray v = False"

fun is_string :: "json \<Rightarrow> bool" where
  "is_string (JStr s) = True"
| "is_string v = False"

text \<open>
  \<^verbatim>\<open>real_data.slice(1)\<close>: arrays and strings have \<^verbatim>\<open>slice\<close>; on \<^verbatim>\<open>null\<close> the property read
  throws, on every other decoded value \<^verbatim>\<open>slice\<close> is undefined and the call throws.
\<close>

fun slice1 :: "json \<Rightarrow> thrown + json" where
  "slice1 (JArr xs) = Inr (JArr (drop 1 xs))"
| "slice1 (JStr s) = Inr (JStr (drop 1 s))"
| "slice1 v = Inl TypeError"

text \<open>\<^verbatim>\<open>throw new Error(errorData.error || fallback)\<close>.\<close>

definition throw_error :: "json \<Rightarrow> string \<Rightarrow> thrown + 'a" where
  "throw_error errorData fallback =
     (case get_prop errorData ''error'' of
        Inl e \<Rightarrow> Inl e
      | Inr v \<Rightarrow> Inl (Error (or_else v (JStr fallback))))"

section \<open>The API client\<close>

text \<open>
  Each function is modelled from the point where \<^verbatim>\<open>await fetch(...)\<close> settles.  What comes
  before only builds the request: \<^verbatim>\<open>getAuthHeaders\<close> catches every exception of its own and
  always returns headers.  The one exception is the guard on an empty identifier in
  \<^verbatim>\<open>updateBook\<close>, \<^verbatim>\<open>deleteBook\<close> and \<^verbatim>\<open>deleteReadingList\<close>, which throws before any request
  is made.
\<close>

subsection \<open>Reads\<close>

definition getBooks :: "decoder \<Rightarrow> fetched \<Rightarrow> thrown + json" where
  "getBooks decode r =
     (case r of
        NetworkFailure \<Rightarrow> Inl FetchRejected
      | Response st txt \<Rightarrow>
          if \<not> ok st then Inl (Error (JStr ''Failed to fetch books''))
          else (case response_json decode txt of
                  Inl e \<Rightarrow> Inl e
                | Inr data \<Rightarrow>
                    (case get_prop data ''body'' of
                       Inl e \<Rightarrow> Inl e
                     | Inr b \<Rightarrow>
                         (case truthy_value b of
                            Some body \<Rightarrow>
                              (case JSON_parse decode body of
                                 Inl e \<Rightarrow> Inl e
                               | Inr real_data \<Rightarrow> slice1 real_data)
                          | None \<Rightarrow> Inr (if isArray data then data else JArr [])))))"

text \<open>
  The tail shared by \<^verbatim>\<open>getBook\<close>, \<^verbatim>\<open>createReadingList\<close> and \<^verbatim>\<open>updateReadingList\<close>:
  \<^verbatim>\<open>if (data.body) return JSON.parse(data.body); return data;\<close>
\<close>

definition unwrap :: "decoder \<Rightarrow> json \<Rightarrow> thrown + json" where
  "unwrap decode data =
     (case get_prop data ''body'' of
        Inl e \<Rightarrow> Inl e
      | Inr b \<Rightarrow>
          (case truthy_value b of
             Some body \<Rightarrow> JSON_parse decode body
           | None \<Rightarrow> Inr data))"

definition getBook :: "decoder \<Rightarrow> fetched \<Rightarrow> thrown + json" where
  "getBook decode r =
     (case r of
        NetworkFailure \<Rightarrow> Inl FetchRejected
      | Response st txt \<Rightarrow>
          if st = 404 then Inr JNull
          else if \<not> ok st then Inl (Error (JStr ''Failed to fetch book''))
          else (case response_json decode txt of
                  Inl e \<Rightarrow> Inl e
                | Inr data \<Rightarrow> unwrap decode data))"

definition getRecommendations :: "decoder \<Rightarrow> fetched \<Rightarrow> thrown + json" where
  "getRecommendations decode r =
     (case r of
        NetworkFailure \<Rightarrow> Inl FetchRejected
      | Response st txt \<Rightarrow>
          if \<not> ok st then Inl (Error (JStr ''Failed to get recommendations''))
          else (case response_json decode txt of
                  Inl e \<Rightarrow> Inl e
                | Inr data \<Rightarrow>
                    if isArray data then Inr data
                    else (case get_prop data ''recommendations'' of
                            Inl e \<Rightarrow> Inl e
                          | Inr v \<Rightarrow> Inr (or_else v (JArr [])))))"

definition getReadingLists :: "decoder \<Rightarrow> fetched \<Rightarrow> thrown + json" where
  "getReadingLists decode r =
     (case r of
        NetworkFailure \<Rightarrow> Inl FetchRejected
      | Response st txt \<Rightarrow>
          if \<not> ok st then Inl (Error (JStr ''Failed to fetch reading lists''))
          else (case response_json decode txt of
                  Inl e \<Rightarrow> Inl e
                | Inr data \<Rightarrow>
                    (case get_prop data ''body'' of
                       Inl e \<Rightarrow> Inl e
                     | Inr b \<Rightarrow>
                         (case truthy_value b of
                            Some body \<Rightarrow> JSON_parse decode body
                          | None \<Rightarrow> Inr (if isArray data then data else JArr [])))))"

subsection \<open>Mutations\<close>

text \<open>
  The \<^verbatim>\<open>try\<close> block of \<^verbatim>\<open>createBook\<close> and \<^verbatim>\<open>updateBook\<close>, which reads the body once and
  yields the pair \<open>(parsedData, errorData)\<close>.  Any exception inside it is swallowed, and
  the two variables keep what had been assigned before the throw.
\<close>

definition envelope_body :: "json \<Rightarrow> json option" where
  "envelope_body parsedData =
     (case parsedData of JObj kvs \<Rightarrow> map_of kvs ''body'' | _ \<Rightarrow> None)"

definition read_book_body :: "decoder \<Rightarrow> string \<Rightarrow> json \<times> json" where
  "read_book_body decode txt =
     (if txt = [] then (JNull, JObj [])
      else (case decode (JStr txt) of
              None \<Rightarrow> (JNull, JObj [])
            | Some parsedData \<Rightarrow>
                (case envelope_body parsedData of
                   Some body \<Rightarrow>
                     (case (if is_string body then decode body else Some body) of
                        None \<Rightarrow> (parsedData, JObj [])
                      | Some parsedBody \<Rightarrow> (parsedBody, parsedBody))
                 | None \<Rightarrow> (parsedData, parsedData))))"

definition createBook :: "decoder \<Rightarrow> fetched \<Rightarrow> thrown + json" where
  "createBook decode r =
     (case r of
        NetworkFailure \<Rightarrow> Inl FetchRejected
      | Response st txt \<Rightarrow>
          (case read_book_body decode txt of
             (parsedData, errorData) \<Rightarrow>
               if st = 401 then throw_error errorData ''Unauthorized: Please login again''
               else if st = 403 then throw_error errorData ''Forbidden: Admin access required''
               else if st = 400 then throw_error errorData ''Invalid request: Missing required fields''
               else if st = 409 then throw_error errorData ''Book with this id already exists''
               else if \<not> ok st then throw_error errorData ''Failed to create book''
               else Inr parsedData))"

definition updateBook :: "decoder \<Rightarrow> string \<Rightarrow> fetched \<Rightarrow> thrown + json" where
  "updateBook decode ident r =
     (if ident = [] then Inl (Error (JStr ''Book ID is required''))
      else (case r of
        NetworkFailure \<Rightarrow> Inl FetchRejected
      | Response st txt \<Rightarrow>
          (case read_book_body decode txt of
             (parsedData, errorData) \<Rightarrow>
               if st = 401 then throw_error errorData ''Unauthorized: Please login again''
               else if st = 403 then throw_error errorData ''Forbidden: Admin access required''
               else if st = 400 then throw_error errorData ''Invalid request''
               else if st = 404 then throw_error errorData ''Book not found''
               else if \<not> ok st then throw_error errorData ''Failed to update book''
               else Inr parsedData)))"

text \<open>
  The \<^verbatim>\<open>try\<close> block of \<^verbatim>\<open>deleteBook\<close>, yielding \<open>errorData\<close>; the flag says whether the
  envelope's body is decoded only when it is a string (\<^verbatim>\<open>deleteBook\<close>) or always
  (\<^verbatim>\<open>deleteReadingList\<close>).
\<close>

definition read_error_body :: "bool \<Rightarrow> decoder \<Rightarrow> string \<Rightarrow> json" where
  "read_error_body only_strings decode txt =
     (if txt = [] then JObj []
      else (case decode (JStr txt) of
              None \<Rightarrow> JObj []
            | Some parsed \<Rightarrow>
                (case get_prop parsed ''body'' of
                   Inl e \<Rightarrow> JObj []
                 | Inr b \<Rightarrow>
                     (case truthy_value b of
                        Some body \<Rightarrow>
                          (case (if only_strings \<and> \<not> is_string body then Some body
                                 else decode body) of
                             None \<Rightarrow> JObj []
                           | Some v \<Rightarrow> v)
                      | None \<Rightarrow> parsed))))"

definition deleteBook :: "decoder \<Rightarrow> string \<Rightarrow> fetched \<Rightarrow> thrown + unit" where
  "deleteBook decode ident r =
     (if ident = [] then Inl (Error (JStr ''Book ID is required''))
      else (case r of
        NetworkFailure \<Rightarrow> Inl FetchRejected
      | Response st txt \<Rightarrow>
          (let errorData = read_error_body True decode txt in
             if st = 401 then throw_error errorData ''Unauthorized: Please login again''
             else if st = 403 then throw_error errorData ''Forbidden: Admin access required''
             else if st = 400 then throw_error errorData ''Invalid request: Missing path param: id''
             else if st = 404 then throw_error errorData ''Book not found''
             else if \<not> ok st then throw_error errorData ''Failed to delete book''
             else Inr ())))"

definition createReadingList :: "decoder \<Rightarrow> fetched \<Rightarrow> thrown + json" where
  "createReadingList decode r =
     (case r of
        NetworkFailure \<Rightarrow> Inl FetchRejected
      | Response st txt \<Rightarrow>
          if \<not> ok st then Inl (Error (JStr ''Failed to create reading list''))
          else (case response_json decode txt of
                  Inl e \<Rightarrow> Inl e
                | Inr data \<Rightarrow> unwrap decode data))"

text \<open>
  In \<^verbatim>\<open>updateReadingList\<close> only the 400 branch looks at the body:
  \<^verbatim>\<open>const errorData = await response.json().catch(() => ({}))\<close>.
\<close>

definition updateReadingList :: "decoder \<Rightarrow> fetched \<Rightarrow> thrown + json" where
  "updateReadingList decode r =
     (case r of
        NetworkFailure \<Rightarrow> Inl FetchRejected
      | Response st txt \<Rightarrow>
          if st = 401 then Inl (Error (JStr ''Unauthorized: Please login again''))
          else if st = 404 then Inl (Error (JStr ''Reading list not found''))
          else if st = 400 then
            (let errorData = (case response_json decode txt of
                                Inl e \<Rightarrow> JObj []
                              | Inr v \<Rightarrow> v)
             in throw_error errorData ''Invalid request'')
          else if \<not> ok st then Inl (Error (JStr ''Failed to update reading list''))
          else (case response_json decode txt of
                  Inl e \<Rightarrow> Inl e
                | Inr data \<Rightarrow> unwrap decode data))"

definition deleteReadingList :: "decoder \<Rightarrow> string \<Rightarrow> fetched \<Rightarrow> thrown + unit" where
  "deleteReadingList decode ident r =
     (if ident = [] then Inl (Error (JStr ''Reading list ID is required''))
      else (case r of
        NetworkFailure \<Rightarrow> Inl FetchRejected
      | Response st txt \<Rightarrow>
          (let errorData = read_error_body False decode txt in
             if st = 401 then throw_error errorData ''Unauthorized: Please login again''
             else if st = 404 then throw_error errorData ''Reading list not found''
             else if st = 400 then throw_error errorData ''Invalid request''
             else if \<not> ok st then throw_error errorData ''Failed to delete reading list''
             else Inr ())))"

subsection \<open>Sample responses\<close>

text \<open>
  A JSON string literal for a text without control characters: the text between double
  quotes, with a backslash before each double quote and each backslash.
\<close>

definition quoted :: "string \<Rightarrow> string" where
  "quoted s =
     [CHR 0x22] @
     concat (map (\<lambda>c. if c = CHR 0x22 \<or> c = CHR 0x5C then [CHR 0x5C, c] else [c]) s) @
     [CHR 0x22]"

definition book1 :: json where
  "book1 = JObj [(''id'', JStr ''b1'')]"

definition book2 :: json where
  "book2 = JObj [(''id'', JStr ''b2'')]"

definition books_text :: string where
  "books_text = ''[{\"id\":\"b1\"},{\"id\":\"b2\"}]''"

definition books_envelope_text :: string where
  "books_envelope_text = ''{\"statusCode\":200,\"body\":'' @ quoted books_text @ ''}''"

definition error_text :: string where
  "error_text = ''{\"error\":\"Token expired\"}''"

definition error_envelope_text :: string where
  "error_envelope_text = ''{\"statusCode\":401,\"body\":'' @ quoted error_text @ ''}''"

text \<open>
  \<^verbatim>\<open>JSON.parse\<close> on the four texts above and on the empty text, which it rejects.  The
  closed theorems below apply it to these five arguments only.
\<close>

definition sample_decode :: decoder where
  "sample_decode v =
     (if v = JStr books_text then Some (JArr [book1, book2])
      else if v = JStr books_envelope_text
        then Some (JObj [(''statusCode'', JNum 200), (''body'', JStr books_text)])
      else if v = JStr error_text then Some (JObj [(''error'', JStr ''Token expired'')])
      else if v = JStr error_envelope_text
        then Some (JObj [(''statusCode'', JNum 401), (''body'', JStr error_text)])
      else None)"

text \<open>
  Four more response texts: the empty object \<^verbatim>\<open>{}\<close>, the envelope
  \<^verbatim>\<open>{"statusCode":500,"body":"{}"}\<close> around it, the object \<^verbatim>\<open>{"body":null}\<close>, and the object
  \<^verbatim>\<open>{"body":{"error":"gone"}}\<close> whose body is an object, not a string.  \<open>plain_decode\<close> is
  \<^verbatim>\<open>JSON.parse\<close> on these four texts, on the empty text, which it rejects, and on the object
  \<^verbatim>\<open>{error: "gone"}\<close>, which it rejects as well: \<^verbatim>\<open>JSON.parse\<close> converts an argument that is
  not a string to a string first, here \<^verbatim>\<open>[object Object]\<close>, which is not JSON.
\<close>

definition empty_object_text :: string where
  "empty_object_text = ''{}''"

definition empty_envelope_text :: string where
  "empty_envelope_text = ''{\"statusCode\":500,\"body\":\"{}\"}''"

definition null_body_text :: string where
  "null_body_text = ''{\"body\":null}''"

definition object_body_text :: string where
  "object_body_text = ''{\"body\":{\"error\":\"gone\"}}''"

definition plain_decode :: decoder where
  "plain_decode v =
     (if v = JStr empty_object_text then Some (JObj [])
      else if v = JStr empty_envelope_text
        then Some (JObj [(''statusCode'', JNum 500), (''body'', JStr empty_object_text)])
      else if v = JStr null_body_text then Some (JObj [(''body'', JNull)])
      else if v = JStr object_body_text
        then Some (JObj [(''body'', JObj [(''error'', JStr ''gone'')])])
      else None)"

subsection \<open>Fixed messages\<close>

text \<open>
  The fixed message each mutation falls back to, by status, read off the chain of status
  tests in its body.
\<close>

definition createBook_fallback :: "nat \<Rightarrow> string" where
  "createBook_fallback st =
     (if st = 401 then ''Unauthorized: Please login again''
      else if st = 403 then ''Forbidden: Admin access required''
      else if st = 400 then ''Invalid request: Missing required fields''
      else if st = 409 then ''Book with this id already exists''
      else ''Failed to create book'')"

definition updateBook_fallback :: "nat \<Rightarrow> string" where
  "updateBook_fallback st =
     (if st = 401 then ''Unauthorized: Please login again''
      else if st = 403 then ''Forbidden: Admin access required''
      else if st = 400 then ''Invalid request''
      else if st = 404 then ''Book not found''
      else ''Failed to update book'')"

definition deleteBook_fallback :: "nat \<Rightarrow> string" where
  "deleteBook_fallback st =
     (if st = 401 then ''Unauthorized: Please login again''
      else if st = 403 then ''Forbidden: Admin access required''
      else if st = 400 then ''Invalid request: Missing path param: id''
      else if st = 404 then ''Book not found''
      else ''Failed to delete book'')"

definition updateReadingList_fallback :: "nat \<Rightarrow> string" where
  "updateReadingList_fallback st =
     (if st = 401 then ''Unauthorized: Please login again''
      else if st = 404 then ''Reading list not found''
      else if st = 400 then ''Invalid request''
      else ''Failed to update reading list'')"

definition deleteReadingList_fallback :: "nat \<Rightarrow> string" where
  "deleteReadingList_fallback st =
     (if st = 401 then ''Unauthorized: Please login again''
      else if st = 404 then ''Reading list not found''
      else if st = 400 then ''Invalid request''
      else ''Failed to delete reading list'')"

section \<open>The notification channel\<close>

text \<open>
  \<^verbatim>\<open>utils/errorHandling\<close>: a module-level slot \<^verbatim>\<open>toastFunctions\<close> that the display surface
  fills at startup.  \<^verbatim>\<open>handleApiError\<close> and \<^verbatim>\<open>showSuccess\<close> forward to the registered
  surface, or fall back to a blocking \<^verbatim>\<open>alert\<close> with a prefixed text.  The flag
  \<open>registered\<close> says whether the slot is filled.

  The text shown for a thrown value is its \<^verbatim>\<open>message\<close> when it is an \<^verbatim>\<open>Error\<close> instance, the
  value itself when it is a string, and a fixed text otherwise.  \<open>MessageOf e\<close> stands for
  a message the engine composes (decode failures, property reads on \<^verbatim>\<open>null\<close>, failed
  fetches, and \<^verbatim>\<open>new Error(v)\<close> for a \<open>v\<close> that is not a string).
\<close>

datatype message = Text string | MessageOf thrown

fun error_message :: "thrown \<Rightarrow> message" where
  "error_message (Error (JStr s)) = Text s"
| "error_message (ThrownString s) = Text s"
| "error_message ThrownOther = Text ''An unexpected error occurred''"
| "error_message e = MessageOf e"

datatype notification =
    ToastSuccess string
  | ToastError message
  | AlertSuccess string
  | AlertError message

definition handleApiError :: "bool \<Rightarrow> thrown \<Rightarrow> notification" where
  "handleApiError registered e =
     (if registered then ToastError (error_message e) else AlertError (error_message e))"

definition showSuccess :: "bool \<Rightarrow> string \<Rightarrow> notification" where
  "showSuccess registered m = (if registered then ToastSuccess m else AlertSuccess m)"

fun is_success :: "notification \<Rightarrow> bool" where
  "is_success (ToastSuccess m) = True"
| "is_success (AlertSuccess m) = True"
| "is_success n = False"

fun is_error :: "notification \<Rightarrow> bool" where
  "is_error (ToastError m) = True"
| "is_error (AlertError m) = True"
| "is_error n = False"

section \<open>The confirmation flow\<close>

text \<open>
  \<^verbatim>\<open>contexts/ConfirmationContext.tsx\<close>.  The provider holds one slot, \<^verbatim>\<open>dialog\<close>, with the
  options shown and the \<^verbatim>\<open>resolve\<close> function of the promise that \<^verbatim>\<open>confirm\<close> returned.
  Promises are numbered in the order \<^verbatim>\<open>confirm\<close> creates them; the slot stores the number
  of the promise its \<^verbatim>\<open>resolve\<close> belongs to.  \<open>resolutions\<close> logs every call of a
  \<^verbatim>\<open>resolve\<close> function, oldest first.  A promise keeps the value of the first call.
\<close>

datatype severity = Danger | Warning | Info

record ConfirmationOptions =
  opt_title :: string
  opt_message :: string
  confirmText :: "string option"
  cancelText :: "string option"
  opt_type :: "severity option"

record dialog_slot =
  isOpen :: bool
  options :: ConfirmationOptions
  resolve :: nat

record provider =
  dialog :: "dialog_slot option"
  promises :: nat
  resolutions :: "(nat \<times> bool) list"

definition provider_init :: provider where
  "provider_init = \<lparr>dialog = None, promises = 0, resolutions = []\<rparr>"

text \<open>\<^verbatim>\<open>confirm(options)\<close> returns the new promise and fills the slot with its \<^verbatim>\<open>resolve\<close>.\<close>

definition confirm :: "ConfirmationOptions \<Rightarrow> provider \<Rightarrow> nat \<times> provider" where
  "confirm opts p =
     (promises p,
      p\<lparr>dialog := Some \<lparr>isOpen = True, options = opts, resolve = promises p\<rparr>,
        promises := Suc (promises p)\<rparr>)"

definition handleConfirm :: "provider \<Rightarrow> provider" where
  "handleConfirm p =
     (case dialog p of
        None \<Rightarrow> p
      | Some d \<Rightarrow> p\<lparr>resolutions := resolutions p @ [(resolve d, True)], dialog := None\<rparr>)"

definition handleCancel :: "provider \<Rightarrow> provider" where
  "handleCancel p =
     (case dialog p of
        None \<Rightarrow> p
      | Some d \<Rightarrow> p\<lparr>resolutions := resolutions p @ [(resolve d, False)], dialog := None\<rparr>)"

text \<open>The value promise \<open>k\<close> has settled to, if any.\<close>

definition settled :: "provider \<Rightarrow> nat \<Rightarrow> bool option" where
  "settled p k = map_of (resolutions p) k"

text \<open>How often a \<^verbatim>\<open>resolve\<close> function of promise \<open>k\<close> has been called.\<close>

definition resolution_count :: "provider \<Rightarrow> nat \<Rightarrow> nat" where
  "resolution_count p k = length (filter (\<lambda>r. fst r = k) (resolutions p))"

text \<open>
  What happens to the provider between renders: some component calls \<^verbatim>\<open>confirm\<close>, or the
  user presses the dialog's accept button, or presses cancel or the backdrop.
\<close>

datatype action = Ask ConfirmationOptions | Accept | Dismiss

fun act :: "provider \<Rightarrow> action \<Rightarrow> provider" where
  "act p (Ask opts) = snd (confirm opts p)"
| "act p Accept = handleConfirm p"
| "act p Dismiss = handleCancel p"

definition run :: "action list \<Rightarrow> provider \<Rightarrow> provider" where
  "run as p = foldl act p as"

text \<open>A slot always refers to a promise that has been created.\<close>

definition slot_allocated :: "provider \<Rightarrow> bool" where
  "slot_allocated p \<longleftrightarrow> (case dialog p of None \<Rightarrow> True | Some d \<Rightarrow> resolve d < promises p)"

text \<open>
  The invariant of the provider: the slot refers to a created promise whose \<^verbatim>\<open>resolve\<close> has
  not been called yet, and no promise has had its \<^verbatim>\<open>resolve\<close> called twice.
\<close>

definition slot_fresh :: "provider \<Rightarrow> bool" where
  "slot_fresh p \<longleftrightarrow>
     slot_allocated p \<and> distinct (map fst (resolutions p)) \<and>
     (\<forall>k\<in>fst ` set (resolutions p). k < promises p) \<and>
     (case dialog p of None \<Rightarrow> True | Some d \<Rightarrow> resolve d \<notin> fst ` set (resolutions p))"

text \<open>Promise \<open>k\<close> has been created, is unresolved, and is no longer in the slot.\<close>

definition abandoned :: "provider \<Rightarrow> nat \<Rightarrow> bool" where
  "abandoned p k \<longleftrightarrow>
     k < promises p \<and> settled p k = None \<and>
     (case dialog p of None \<Rightarrow> True | Some d \<Rightarrow> resolve d \<noteq> k)"

section \<open>The reading-list page\<close>

text \<open>
  Modelled from the spec: the module \<^verbatim>\<open>@/types\<close> with the declarations of \<^verbatim>\<open>Book\<close> and
  \<^verbatim>\<open>ReadingList\<close> is not among the sources; the fields are those of section 3 of the
  specification.  The page reads \<^verbatim>\<open>book.id\<close>, \<^verbatim>\<open>list.id\<close> and \<^verbatim>\<open>list.bookIds\<close> only.
\<close>

record Book =
  book_id :: string
  title :: string
  author :: string
  genre :: string
  rating :: int
  publishedYear :: int

record ReadingList =
  list_id :: string
  userId :: string
  list_name :: string
  description :: "string option"
  bookIds :: "string list"
  createdAt :: string
  updatedAt :: string

text \<open>The state hooks of the \<^verbatim>\<open>ReadingLists\<close> component.\<close>

record page =
  lists :: "ReadingList list"
  isLoading :: bool
  isModalOpen :: bool
  newListName :: string
  newListDescription :: string
  selectedList :: "ReadingList option"
  listBooks :: "Book list"
  isLoadingBooks :: bool
  isBooksModalOpen :: bool
  removingBookId :: "string option"
  deletingListId :: "string option"

text \<open>
  What a handler does besides updating the state, in program order: calls of the API
  client, notifications through the channel, the plain \<^verbatim>\<open>alert\<close> of \<^verbatim>\<open>handleCreateList\<close>,
  and the request for a confirmation.
\<close>

datatype api_call =
    GetReadingLists
  | CreateReadingList string string string "string list"
  | GetBook string
  | UpdateReadingList string "string list"
  | DeleteReadingList string

datatype effect =
    Call api_call
  | Notify notification
  | PlainAlert string
  | Confirm ConfirmationOptions

definition notifications :: "effect list \<Rightarrow> notification list" where
  "notifications effs = concat (map (\<lambda>e. case e of Notify n \<Rightarrow> [n] | _ \<Rightarrow> []) effs)"

definition calls :: "effect list \<Rightarrow> api_call list" where
  "calls effs = concat (map (\<lambda>e. case e of Call c \<Rightarrow> [c] | _ \<Rightarrow> []) effs)"

text \<open>
  \<^verbatim>\<open>String.prototype.trim\<close> removes white space and line terminators from both ends.  A
  text here is a list of code units below 256; among these the white space characters are
  tab, vertical tab, form feed, space and no-break space, and the line terminators are
  line feed and carriage return.
\<close>

definition is_space :: "char \<Rightarrow> bool" where
  "is_space c \<longleftrightarrow>
     c \<in> {CHR 0x09, CHR 0x0A, CHR 0x0B, CHR 0x0C, CHR 0x0D, CHR 0x20, CHR 0xA0}"

definition trim :: "string \<Rightarrow> string" where
  "trim s = rev (dropWhile is_space (rev (dropWhile is_space s)))"

text \<open>
  The handlers are asynchronous.  Each is modelled with the outcome of the API call it
  awaits as an argument, and returns the state after it has run to completion together
  with its effects.  After an \<^verbatim>\<open>await\<close> a handler still reads the state variables of the
  render it was started from; these are the fields of the argument \<open>s\<close>.
\<close>

definition loadLists :: "bool \<Rightarrow> page \<Rightarrow> thrown + ReadingList list \<Rightarrow> page \<times> effect list" where
  "loadLists registered s outcome =
     (case outcome of
        Inr data \<Rightarrow> (s\<lparr>lists := data, isLoading := False\<rparr>, [Call GetReadingLists])
      | Inl e \<Rightarrow>
          (s\<lparr>isLoading := False\<rparr>, [Call GetReadingLists, Notify (handleApiError registered e)]))"

definition handleCreateList ::
  "bool \<Rightarrow> page \<Rightarrow> thrown + ReadingList \<Rightarrow> page \<times> effect list" where
  "handleCreateList registered s outcome =
     (if trim (newListName s) = [] then (s, [PlainAlert ''Please enter a list name''])
      else
        (let request = Call (CreateReadingList ''1'' (newListName s) (newListDescription s) [])
         in case outcome of
              Inr newList \<Rightarrow>
                (s\<lparr>lists := lists s @ [newList], isModalOpen := False,
                   newListName := [], newListDescription := []\<rparr>,
                 [request, Notify (showSuccess registered ''Reading list created successfully!'')])
            | Inl e \<Rightarrow> (s, [request, Notify (handleApiError registered e)])))"

text \<open>
  \<^verbatim>\<open>Promise.all\<close>: the outcomes of the promises are given in array order, each with the
  time at which it settles.  If one rejects, the result is the rejection that settles
  first; otherwise the values in array order.
\<close>

fun rejections :: "(nat \<times> (thrown + 'a)) list \<Rightarrow> (nat \<times> thrown) list" where
  "rejections [] = []"
| "rejections ((t, Inl e) # ps) = (t, e) # rejections ps"
| "rejections ((t, Inr v) # ps) = rejections ps"

fun fulfilments :: "(nat \<times> (thrown + 'a)) list \<Rightarrow> 'a list" where
  "fulfilments [] = []"
| "fulfilments ((t, Inl e) # ps) = fulfilments ps"
| "fulfilments ((t, Inr v) # ps) = v # fulfilments ps"

definition promise_all :: "(nat \<times> (thrown + 'a)) list \<Rightarrow> thrown + 'a list" where
  "promise_all ps =
     (case rejections ps of
        [] \<Rightarrow> Inr (fulfilments ps)
      | x # xs \<Rightarrow> Inl (snd (arg_min_list fst (x # xs))))"

text \<open>\<^verbatim>\<open>books.filter((book) => book !== null)\<close>\<close>

definition non_null :: "'a option list \<Rightarrow> 'a list" where
  "non_null books = concat (map (\<lambda>b. case b of None \<Rightarrow> [] | Some x \<Rightarrow> [x]) books)"

text \<open>
  \<^verbatim>\<open>loadListBooks\<close>, in two parts: what follows the \<^verbatim>\<open>await\<close> of \<^verbatim>\<open>Promise.all\<close>, applied to
  the state the page is in when the promise settles, and the whole function.  The argument
  \<open>fetchBook\<close> is the imported function \<^verbatim>\<open>getBook\<close> as the page sees it: for each
  identifier, when its promise settles and with what.
\<close>

definition loadListBooks_settle ::
  "bool \<Rightarrow> thrown + Book option list \<Rightarrow> page \<Rightarrow> page \<times> effect list" where
  "loadListBooks_settle registered outcome cur =
     (case outcome of
        Inr books \<Rightarrow> (cur\<lparr>listBooks := non_null books, isLoadingBooks := False\<rparr>, [])
      | Inl e \<Rightarrow> (cur\<lparr>isLoadingBooks := False\<rparr>, [Notify (handleApiError registered e)]))"

definition loadListBooks ::
  "bool \<Rightarrow> (string \<Rightarrow> nat \<times> (thrown + Book option)) \<Rightarrow> page \<Rightarrow> string list \<Rightarrow>
   page \<times> effect list" where
  "loadListBooks registered fetchBook cur ids =
     (case loadListBooks_settle registered (promise_all (map fetchBook ids))
             (cur\<lparr>isLoadingBooks := True\<rparr>) of
        (s', effs) \<Rightarrow> (s', map (\<lambda>i. Call (GetBook i)) ids @ effs))"

text \<open>
  \<^verbatim>\<open>handleListClick\<close>: the state in which it waits for \<^verbatim>\<open>loadListBooks\<close>, and the whole
  handler.
\<close>

definition handleListClick_begin :: "page \<Rightarrow> ReadingList \<Rightarrow> page" where
  "handleListClick_begin s l =
     s\<lparr>selectedList := Some l, isBooksModalOpen := True, isLoadingBooks := True\<rparr>"

definition handleListClick ::
  "bool \<Rightarrow> (string \<Rightarrow> nat \<times> (thrown + Book option)) \<Rightarrow> page \<Rightarrow> ReadingList \<Rightarrow>
   page \<times> effect list" where
  "handleListClick registered fetchBook s l =
     loadListBooks registered fetchBook (s\<lparr>selectedList := Some l, isBooksModalOpen := True\<rparr>)
       (bookIds l)"

text \<open>The \<^verbatim>\<open>onClose\<close> of the books modal.\<close>

definition closeBooksModal :: "page \<Rightarrow> page" where
  "closeBooksModal s = s\<lparr>isBooksModalOpen := False, selectedList := None, listBooks := []\<rparr>"

text \<open>
  \<^verbatim>\<open>handleRemoveBook\<close>, in two parts: up to the \<^verbatim>\<open>await\<close> of \<^verbatim>\<open>updateReadingList\<close>, which
  yields the state at the moment the request is issued and the request; and what follows
  the \<^verbatim>\<open>await\<close>, reading \<open>s\<close> and writing to the state \<open>cur\<close> the page is in then.
\<close>

definition handleRemoveBook_request :: "page \<Rightarrow> string \<Rightarrow> (page \<times> api_call) option" where
  "handleRemoveBook_request s bookId =
     (case selectedList s of
        None \<Rightarrow> None
      | Some sel \<Rightarrow>
          Some (s\<lparr>removingBookId := Some bookId\<rparr>,
                UpdateReadingList (list_id sel) (filter (\<lambda>i. i \<noteq> bookId) (bookIds sel))))"

definition handleRemoveBook_settle ::
  "bool \<Rightarrow> page \<Rightarrow> ReadingList \<Rightarrow> string \<Rightarrow> thrown + ReadingList \<Rightarrow> page \<Rightarrow>
   page \<times> notification" where
  "handleRemoveBook_settle registered s sel bookId outcome cur =
     (case outcome of
        Inr updatedList \<Rightarrow>
          (cur\<lparr>selectedList := Some updatedList,
               listBooks := filter (\<lambda>book. book_id book \<noteq> bookId) (listBooks s),
               lists := map (\<lambda>l. if list_id l = list_id sel then updatedList else l) (lists s),
               removingBookId := None\<rparr>,
           showSuccess registered ''Book removed from reading list successfully!'')
      | Inl e \<Rightarrow> (cur\<lparr>removingBookId := None\<rparr>, handleApiError registered e))"

definition handleRemoveBook ::
  "bool \<Rightarrow> page \<Rightarrow> string \<Rightarrow> thrown + ReadingList \<Rightarrow> page \<times> effect list" where
  "handleRemoveBook registered s bookId outcome =
     (case selectedList s of
        None \<Rightarrow> (s, [])
      | Some sel \<Rightarrow>
          (case handleRemoveBook_request s bookId of
             None \<Rightarrow> (s, [])
           | Some (s1, request) \<Rightarrow>
               (case handleRemoveBook_settle registered s sel bookId outcome s1 of
                  (s2, n) \<Rightarrow> (s2, [Call request, Notify n]))))"

text \<open>
  \<^verbatim>\<open>handleDeleteList\<close>.  \<open>answer\<close> is what the promise of \<^verbatim>\<open>confirm\<close> settles to, \<open>None\<close> when
  it never settles; the handler then stays suspended at its first \<^verbatim>\<open>await\<close>.
\<close>

definition delete_confirmation :: ConfirmationOptions where
  "delete_confirmation =
     \<lparr>opt_title = ''Delete Reading List'',
      opt_message =
        ''Are you sure you want to delete this reading list? This action cannot be undone.'',
      confirmText = Some ''Delete'', cancelText = Some ''Cancel'', opt_type = Some Danger\<rparr>"

definition handleDeleteList ::
  "bool \<Rightarrow> page \<Rightarrow> string \<Rightarrow> bool option \<Rightarrow> thrown + unit \<Rightarrow> page \<times> effect list" where
  "handleDeleteList registered s listId answer outcome =
     (if answer \<noteq> Some True then (s, [Confirm delete_confirmation])
      else
        (case outcome of
           Inr u \<Rightarrow>
             (let s1 = s\<lparr>lists := filter (\<lambda>l. list_id l \<noteq> listId) (lists s)\<rparr>;
                  s2 = (if map_option list_id (selectedList s) = Some listId
                        then s1\<lparr>isBooksModalOpen := False, selectedList := None, listBooks := []\<rparr>
                        else s1)
              in (s2\<lparr>deletingListId := None\<rparr>,
                  [Confirm delete_confirmation, Call (DeleteReadingList listId),
                   Notify (showSuccess registered ''Reading list deleted successfully!'')]))
         | Inl e \<Rightarrow>
             (s\<lparr>deletingListId := None\<rparr>,
              [Confirm delete_confirmation, Call (DeleteReadingList listId),
               Notify (handleApiError registered e)])))"



text \<open>The invariant of section 3: the books in view belong to the selected list.\<close>

definition view_within_list :: "page \<Rightarrow> bool" where
  "view_within_list s \<longleftrightarrow>
     (case selectedList s of
        None \<Rightarrow> True
      | Some l \<Rightarrow> set (map book_id (listBooks s)) \<subseteq> set (bookIds l))"

subsection \<open>A sample page\<close>

definition sample_book1 :: Book where
  "sample_book1 =
     \<lparr>book_id = ''b1'', title = ''Dune'', author = ''Frank Herbert'',
      genre = ''Science Fiction'', rating = 5, publishedYear = 1965\<rparr>"

definition sample_book2 :: Book where
  "sample_book2 =
     \<lparr>book_id = ''b2'', title = ''Emma'', author = ''Jane Austen'',
      genre = ''Fiction'', rating = 4, publishedYear = 1815\<rparr>"

definition sample_list :: ReadingList where
  "sample_list =
     \<lparr>list_id = ''l1'', userId = ''1'', list_name = ''Summer Reading 2024'',
      description = None, bookIds = [''b1'', ''b2''],
      createdAt = ''2024-06-01T10:00:00Z'', updatedAt = ''2024-06-01T10:00:00Z''\<rparr>"

definition other_list :: ReadingList where
  "other_list =
     \<lparr>list_id = ''l2'', userId = ''1'', list_name = ''Classics'',
      description = None, bookIds = [''b2''],
      createdAt = ''2024-06-02T10:00:00Z'', updatedAt = ''2024-06-02T10:00:00Z''\<rparr>"

text \<open>The page before any list is opened, and with \<open>sample_list\<close> open and loaded.\<close>

definition closed_page :: page where
  "closed_page =
     \<lparr>lists = [sample_list, other_list], isLoading = False, isModalOpen = False,
      newListName = [], newListDescription = [], selectedList = None, listBooks = [],
      isLoadingBooks = False, isBooksModalOpen = False, removingBookId = None,
      deletingListId = None\<rparr>"

definition sample_page :: page where
  "sample_page =
     closed_page\<lparr>selectedList := Some sample_list, listBooks := [sample_book1, sample_book2],
       isBooksModalOpen := True\<rparr>"

text \<open>
  An overlap of two selections: \<open>sample_list\<close> is clicked and its two books are still being
  fetched when the modal is closed and \<open>other_list\<close> is clicked; the fetch for
  \<open>other_list\<close> settles first, then the one for \<open>sample_list\<close>.
\<close>

definition overlapped_page :: page where
  "overlapped_page =
     fst (loadListBooks_settle True (Inr [Some sample_book1, Some sample_book2])
       (fst (loadListBooks_settle True (Inr [Some sample_book2])
         (handleListClick_begin
            (closeBooksModal (handleListClick_begin closed_page sample_list)) other_list))))"

text \<open>A server that answers the removal of \<open>b1\<close> with a list that has no books left.\<close>

definition emptied_list :: ReadingList where
  "emptied_list = sample_list\<lparr>bookIds := []\<rparr>"

text \<open>The answers of a server that has the two sample books under their identifiers.\<close>

definition sample_fetchBook :: "string \<Rightarrow> nat \<times> (thrown + Book option)" where
  "sample_fetchBook i =
     (if i = ''b1'' then (1, Inr (Some sample_book1))
      else if i = ''b2'' then (2, Inr (Some sample_book2))
      else (0, Inr None))"

subsection \<open>A sample catalogue\<close>






section \<open>Response shapes of getBooks\<close>

lemma getBooks_direct_array:
  "ok st \<Longrightarrow> decode (JStr txt) = Some (JArr xs) \<Longrightarrow>
   getBooks decode (Response st txt) = Inr (JArr xs)"
  by (simp add: getBooks_def response_json_def JSON_parse_def truthy_value_def)

lemma getBooks_envelope:
  "ok st \<Longrightarrow> decode (JStr txt) = Some (JObj kvs) \<Longrightarrow> map_of kvs ''body'' = Some (JStr b) \<Longrightarrow>
   decode (JStr b) = Some (JArr xs) \<Longrightarrow> b \<noteq> [] \<Longrightarrow>
   getBooks decode (Response st txt) = Inr (JArr (drop 1 xs))"
  by (simp add: getBooks_def response_json_def JSON_parse_def truthy_value_def)

lemma sample_decode_books_envelope:
  "sample_decode (JStr books_envelope_text) =
     Some (JObj [(''statusCode'', JNum 200), (''body'', JStr books_text)])"
  by (simp add: sample_decode_def books_envelope_text_def books_text_def quoted_def)

lemma sample_decode_books:
  "sample_decode (JStr books_text) = Some (JArr [book1, book2])"
  by (simp add: sample_decode_def)

lemma books_text_nonempty: "books_text \<noteq> []"
  by (simp add: books_text_def)

text \<open>
  C1.  A 200 response whose text is the envelope
  \<^verbatim>\<open>{"statusCode":200,"body":"[{\"id\":\"b1\"},{\"id\":\"b2\"}]"}\<close> carries the two books
  \<open>b1\<close> and \<open>b2\<close> in its body, and \<open>getBooks\<close> returns \<open>b2\<close> alone: the envelope branch
  ends in \<^verbatim>\<open>real_data.slice(1)\<close>, which drops the first element of the decoded array.
\<close>

theorem getBooks_envelope_drops_first_book:
  "sample_decode (JStr books_text) = Some (JArr [book1, book2]) \<and>
   getBooks sample_decode (Response 200 books_envelope_text) = Inr (JArr [book2])"
  by (simp add: getBooks_def response_json_def JSON_parse_def truthy_value_def ok_def
      sample_decode_books_envelope sample_decode_books books_text_nonempty)

section \<open>Error messages and undecodable bodies\<close>

lemma ok_not_error_status:
  "ok st \<Longrightarrow> st \<noteq> 400 \<and> st \<noteq> 401 \<and> st \<noteq> 403 \<and> st \<noteq> 404 \<and> st \<noteq> 409"
  by (auto simp: ok_def)

lemma createBook_not_ok:
  "\<not> ok st \<Longrightarrow> createBook decode (Response st txt) =
     throw_error (snd (read_book_body decode txt)) (createBook_fallback st)"
  by (simp add: createBook_def createBook_fallback_def split: prod.splits)

lemma updateBook_not_ok:
  "\<not> ok st \<Longrightarrow> ident \<noteq> [] \<Longrightarrow> updateBook decode ident (Response st txt) =
     throw_error (snd (read_book_body decode txt)) (updateBook_fallback st)"
  by (simp add: updateBook_def updateBook_fallback_def split: prod.splits)

lemma deleteBook_not_ok:
  "\<not> ok st \<Longrightarrow> ident \<noteq> [] \<Longrightarrow> deleteBook decode ident (Response st txt) =
     throw_error (read_error_body True decode txt) (deleteBook_fallback st)"
  by (simp add: deleteBook_def deleteBook_fallback_def Let_def)

lemma deleteReadingList_not_ok:
  "\<not> ok st \<Longrightarrow> ident \<noteq> [] \<Longrightarrow> deleteReadingList decode ident (Response st txt) =
     throw_error (read_error_body False decode txt) (deleteReadingList_fallback st)"
  by (simp add: deleteReadingList_def deleteReadingList_fallback_def Let_def)

lemma throw_error_message:
  "map_of kvs ''error'' = Some (JStr m) \<Longrightarrow> m \<noteq> [] \<Longrightarrow>
   throw_error (JObj kvs) fb = Inl (Error (JStr m))"
  by (simp add: throw_error_def or_else_def truthy_value_def)

lemma throw_error_fallback:
  "map_of kvs ''error'' = None \<Longrightarrow> throw_error (JObj kvs) fb = Inl (Error (JStr fb))"
  by (simp add: throw_error_def or_else_def truthy_value_def)

lemma read_book_body_direct:
  "decode (JStr []) = None \<Longrightarrow> decode (JStr txt) = Some (JObj kvs) \<Longrightarrow>
   map_of kvs ''body'' = None \<Longrightarrow> snd (read_book_body decode txt) = JObj kvs"
  by (auto simp: read_book_body_def envelope_body_def)

lemma read_book_body_envelope:
  "decode (JStr []) = None \<Longrightarrow> decode (JStr txt) = Some (JObj outer) \<Longrightarrow>
   map_of outer ''body'' = Some (JStr b) \<Longrightarrow> decode (JStr b) = Some (JObj kvs) \<Longrightarrow>
   snd (read_book_body decode txt) = JObj kvs"
  by (auto simp: read_book_body_def envelope_body_def)

lemma read_error_body_direct:
  "decode (JStr []) = None \<Longrightarrow> decode (JStr txt) = Some (JObj kvs) \<Longrightarrow>
   map_of kvs ''body'' = None \<Longrightarrow> read_error_body flag decode txt = JObj kvs"
  by (auto simp: read_error_body_def truthy_value_def)

lemma read_error_body_envelope:
  "decode (JStr []) = None \<Longrightarrow> decode (JStr txt) = Some (JObj outer) \<Longrightarrow>
   map_of outer ''body'' = Some (JStr b) \<Longrightarrow> decode (JStr b) = Some (JObj kvs) \<Longrightarrow>
   read_error_body flag decode txt = JObj kvs"
  by (auto simp: read_error_body_def truthy_value_def)

text \<open>
  In the two shapes on which the four body-reading mutations agree, each of them takes
  the same object as its error data: the decoded text itself when it is an object without
  a \<^verbatim>\<open>body\<close> property, and the decoded body when the decoded text is an object whose
  \<^verbatim>\<open>body\<close> is a string that decodes to an object.
\<close>

lemma error_data_of_shape:
  assumes "decode (JStr []) = None"
    and "decode (JStr txt) = Some (JObj kvs) \<and> map_of kvs ''body'' = None \<or>
         decode (JStr txt) = Some (JObj outer) \<and> map_of outer ''body'' = Some (JStr b) \<and>
         decode (JStr b) = Some (JObj kvs)"
  shows "snd (read_book_body decode txt) = JObj kvs"
    and "read_error_body flag decode txt = JObj kvs"
  using assms
  by (auto simp: read_book_body_direct read_book_body_envelope read_error_body_direct
      read_error_body_envelope)

lemma read_book_body_undecodable:
  "decode (JStr txt) = None \<Longrightarrow> read_book_body decode txt = (JNull, JObj [])"
  by (simp add: read_book_body_def)

lemma read_error_body_undecodable:
  "decode (JStr txt) = None \<Longrightarrow> read_error_body flag decode txt = JObj []"
  by (simp add: read_error_body_def)


lemma updateReadingList_not_ok:
  "\<not> ok st \<Longrightarrow> updateReadingList decode (Response st txt) =
     (if st = 400
      then throw_error (case decode (JStr txt) of None \<Rightarrow> JObj [] | Some v \<Rightarrow> v) ''Invalid request''
      else Inl (Error (JStr (updateReadingList_fallback st))))"
  by (simp add: updateReadingList_def updateReadingList_fallback_def response_json_def
      JSON_parse_def Let_def split: option.splits)

text \<open>
  C4 (as amended).  For a response with a status outside 200..299:

  \<^item> \<open>createBook\<close>, \<open>updateBook\<close>, \<open>deleteBook\<close> and \<open>deleteReadingList\<close> throw an error whose
    message is the \<^verbatim>\<open>error\<close> string verbatim when the response text decodes to an object
    that has no \<^verbatim>\<open>body\<close> property and whose \<^verbatim>\<open>error\<close> is a non-empty string (direct shape),
    or to an object whose \<^verbatim>\<open>body\<close> is a string that itself decodes to an object whose
    \<^verbatim>\<open>error\<close> is a non-empty string (envelope shape);
  \<^item> they throw the fixed message for the status when the response text is empty or not
    JSON, or has one of these two shapes with an object that has no \<^verbatim>\<open>error\<close> property;
  \<^item> \<open>updateReadingList\<close> throws the fixed message for the status at every such status
    except 400, whatever the body; at 400 it throws the \<^verbatim>\<open>error\<close> string of the decoded
    text when that is an object whose \<^verbatim>\<open>error\<close> is a non-empty string (it does not open an
    envelope body), and \<^verbatim>\<open>Invalid request\<close> when the text is empty, not JSON, or an object
    without an \<^verbatim>\<open>error\<close> property;
  \<^item> \<open>createReadingList\<close> throws its one fixed message.

  Nothing is said about responses of any other shape.
\<close>

theorem mutation_error_messages:
  assumes "\<not> ok st" and "decode (JStr []) = None" and "ident \<noteq> []"
  shows "((decode (JStr txt) = Some (JObj kvs) \<and> map_of kvs ''body'' = None \<or>
           decode (JStr txt) = Some (JObj outer) \<and> map_of outer ''body'' = Some (JStr b) \<and>
           decode (JStr b) = Some (JObj kvs)) \<and>
          map_of kvs ''error'' = Some (JStr m) \<and> m \<noteq> [] \<longrightarrow>
            createBook decode (Response st txt) = Inl (Error (JStr m)) \<and>
            updateBook decode ident (Response st txt) = Inl (Error (JStr m)) \<and>
            deleteBook decode ident (Response st txt) = Inl (Error (JStr m)) \<and>
            deleteReadingList decode ident (Response st txt) = Inl (Error (JStr m))) \<and>
         (decode (JStr txt) = None \<or>
          (decode (JStr txt) = Some (JObj kvs) \<and> map_of kvs ''body'' = None \<or>
           decode (JStr txt) = Some (JObj outer) \<and> map_of outer ''body'' = Some (JStr b) \<and>
           decode (JStr b) = Some (JObj kvs)) \<and>
          map_of kvs ''error'' = None \<longrightarrow>
            createBook decode (Response st txt) = Inl (Error (JStr (createBook_fallback st))) \<and>
            updateBook decode ident (Response st txt) = Inl (Error (JStr (updateBook_fallback st))) \<and>
            deleteBook decode ident (Response st txt) = Inl (Error (JStr (deleteBook_fallback st))) \<and>
            deleteReadingList decode ident (Response st txt) =
              Inl (Error (JStr (deleteReadingList_fallback st)))) \<and>
         (st \<noteq> 400 \<longrightarrow>
            updateReadingList decode (Response st txt) =
              Inl (Error (JStr (updateReadingList_fallback st)))) \<and>
         (st = 400 \<and> decode (JStr txt) = Some (JObj kvs) \<and>
          map_of kvs ''error'' = Some (JStr m) \<and> m \<noteq> [] \<longrightarrow>
            updateReadingList decode (Response st txt) = Inl (Error (JStr m))) \<and>
         (st = 400 \<and> (decode (JStr txt) = None \<or>
                      decode (JStr txt) = Some (JObj kvs) \<and> map_of kvs ''error'' = None) \<longrightarrow>
            updateReadingList decode (Response st txt) = Inl (Error (JStr ''Invalid request''))) \<and>
         createReadingList decode (Response st txt) =
           Inl (Error (JStr ''Failed to create reading list''))"
proof -
  have verbatim: "createBook decode (Response st txt) = Inl (Error (JStr m)) \<and>
      updateBook decode ident (Response st txt) = Inl (Error (JStr m)) \<and>
      deleteBook decode ident (Response st txt) = Inl (Error (JStr m)) \<and>
      deleteReadingList decode ident (Response st txt) = Inl (Error (JStr m))"
    if shape: "decode (JStr txt) = Some (JObj kvs) \<and> map_of kvs ''body'' = None \<or>
           decode (JStr txt) = Some (JObj outer) \<and> map_of outer ''body'' = Some (JStr b) \<and>
           decode (JStr b) = Some (JObj kvs)"
      and e: "map_of kvs ''error'' = Some (JStr m)" and m: "m \<noteq> []"
    using assms e m
    by (simp add: createBook_not_ok updateBook_not_ok deleteBook_not_ok
        deleteReadingList_not_ok error_data_of_shape [OF assms(2) shape] throw_error_message)
  have fallback: "createBook decode (Response st txt) = Inl (Error (JStr (createBook_fallback st))) \<and>
      updateBook decode ident (Response st txt) = Inl (Error (JStr (updateBook_fallback st))) \<and>
      deleteBook decode ident (Response st txt) = Inl (Error (JStr (deleteBook_fallback st))) \<and>
      deleteReadingList decode ident (Response st txt) =
        Inl (Error (JStr (deleteReadingList_fallback st)))"
    if "decode (JStr txt) = None \<or>
          (decode (JStr txt) = Some (JObj kvs) \<and> map_of kvs ''body'' = None \<or>
           decode (JStr txt) = Some (JObj outer) \<and> map_of outer ''body'' = Some (JStr b) \<and>
           decode (JStr b) = Some (JObj kvs)) \<and>
          map_of kvs ''error'' = None"
  proof (cases "decode (JStr txt) = None")
    case True
    then show ?thesis
      using assms
      by (simp add: createBook_not_ok updateBook_not_ok deleteBook_not_ok
          deleteReadingList_not_ok read_book_body_undecodable read_error_body_undecodable
          throw_error_fallback)
  next
    case False
    with that have shape: "decode (JStr txt) = Some (JObj kvs) \<and> map_of kvs ''body'' = None \<or>
           decode (JStr txt) = Some (JObj outer) \<and> map_of outer ''body'' = Some (JStr b) \<and>
           decode (JStr b) = Some (JObj kvs)"
      and e: "map_of kvs ''error'' = None"
      by auto
    show ?thesis
      using assms e
      by (simp add: createBook_not_ok updateBook_not_ok deleteBook_not_ok
          deleteReadingList_not_ok error_data_of_shape [OF assms(2) shape] throw_error_fallback)
  qed
  have upd: "updateReadingList decode (Response st txt) =
     (if st = 400
      then throw_error (case decode (JStr txt) of None \<Rightarrow> JObj [] | Some v \<Rightarrow> v) ''Invalid request''
      else Inl (Error (JStr (updateReadingList_fallback st))))"
    using assms(1) by (rule updateReadingList_not_ok)
  have upd400: "updateReadingList decode (Response st txt) = Inl (Error (JStr m))"
    if "st = 400" "decode (JStr txt) = Some (JObj kvs)" "map_of kvs ''error'' = Some (JStr m)" "m \<noteq> []"
    unfolding upd using that by (simp add: throw_error_message)
  have upd400': "updateReadingList decode (Response st txt) = Inl (Error (JStr ''Invalid request''))"
    if "st = 400" "decode (JStr txt) = None \<or>
        decode (JStr txt) = Some (JObj kvs) \<and> map_of kvs ''error'' = None"
    unfolding upd using that by (auto simp: throw_error_fallback)
  have crl: "createReadingList decode (Response st txt) =
           Inl (Error (JStr ''Failed to create reading list''))"
    using assms(1) by (simp add: createReadingList_def)
  show ?thesis
    using verbatim fallback upd upd400 upd400' crl by (intro conjI impI) simp_all
qed

lemma sample_decode_empty: "sample_decode (JStr []) = None"
  by (simp add: sample_decode_def books_text_def books_envelope_text_def error_text_def
      error_envelope_text_def quoted_def)

lemma sample_decode_error:
  "sample_decode (JStr error_text) = Some (JObj [(''error'', JStr ''Token expired'')])"
  by (simp add: sample_decode_def books_text_def books_envelope_text_def error_text_def
      error_envelope_text_def quoted_def)

lemma sample_decode_error_envelope:
  "sample_decode (JStr error_envelope_text) =
     Some (JObj [(''statusCode'', JNum 401), (''body'', JStr error_text)])"
  by (simp add: sample_decode_def books_text_def books_envelope_text_def error_text_def
      error_envelope_text_def quoted_def)

lemma plain_decode_values:
  "plain_decode (JStr []) = None"
  "plain_decode (JStr empty_object_text) = Some (JObj [])"
  "plain_decode (JStr empty_envelope_text) =
     Some (JObj [(''statusCode'', JNum 500), (''body'', JStr empty_object_text)])"
  "plain_decode (JStr null_body_text) = Some (JObj [(''body'', JNull)])"
  "plain_decode (JStr object_body_text) =
     Some (JObj [(''body'', JObj [(''error'', JStr ''gone'')])])"
  "plain_decode (JObj [(''error'', JStr ''gone'')]) = None"
  by (simp_all add: plain_decode_def empty_object_text_def empty_envelope_text_def
      null_body_text_def object_body_text_def)

lemma sample_texts_nonempty:
  "error_text \<noteq> []" "error_envelope_text \<noteq> []" "empty_object_text \<noteq> []"
  "empty_envelope_text \<noteq> []" "null_body_text \<noteq> []" "object_body_text \<noteq> []"
  by (simp_all add: error_text_def error_envelope_text_def empty_object_text_def
      empty_envelope_text_def null_body_text_def object_body_text_def)

text \<open>
  C4 as stated fails.  A 401 response to \<open>updateReadingList\<close> and a 400 response to
  \<open>createReadingList\<close> with the body \<^verbatim>\<open>{"error":"Token expired"}\<close> carry a structured error,
  and the error thrown has the fixed message, not that text.  A 400 response to
  \<open>createBook\<close> with the body \<^verbatim>\<open>{"body":null}\<close> carries no structured error, and what is
  thrown is the \<open>TypeError\<close> of reading a property of \<^verbatim>\<open>null\<close>, not the fixed message.  A
  404 response with the body \<^verbatim>\<open>{"body":{"error":"gone"}}\<close> makes \<open>deleteBook\<close> throw
  \<^verbatim>\<open>gone\<close> and \<open>deleteReadingList\<close> throw its fixed message.
\<close>

theorem updateReadingList_ignores_structured_error:
  "sample_decode (JStr error_text) = Some (JObj [(''error'', JStr ''Token expired'')]) \<and>
   updateReadingList sample_decode (Response 401 error_text) =
     Inl (Error (JStr ''Unauthorized: Please login again'')) \<and>
   createReadingList sample_decode (Response 400 error_text) =
     Inl (Error (JStr ''Failed to create reading list'')) \<and>
   plain_decode (JStr null_body_text) = Some (JObj [(''body'', JNull)]) \<and>
   createBook plain_decode (Response 400 null_body_text) = Inl TypeError \<and>
   plain_decode (JStr object_body_text) =
     Some (JObj [(''body'', JObj [(''error'', JStr ''gone'')])]) \<and>
   deleteBook plain_decode ''b1'' (Response 404 object_body_text) = Inl (Error (JStr ''gone'')) \<and>
   deleteReadingList plain_decode ''l1'' (Response 404 object_body_text) =
     Inl (Error (JStr ''Reading list not found''))"
proof -
  have "updateReadingList sample_decode (Response 401 error_text) =
      Inl (Error (JStr ''Unauthorized: Please login again''))"
    by (simp add: updateReadingList_def)
  moreover have "createReadingList sample_decode (Response 400 error_text) =
      Inl (Error (JStr ''Failed to create reading list''))"
    by (simp add: createReadingList_def ok_def)
  moreover have "createBook plain_decode (Response 400 null_body_text) = Inl TypeError"
    by (simp add: createBook_def read_book_body_def envelope_body_def throw_error_def
        plain_decode_values sample_texts_nonempty)
  moreover have "deleteBook plain_decode ''b1'' (Response 404 object_body_text) =
      Inl (Error (JStr ''gone''))"
    by (simp add: deleteBook_def read_error_body_def truthy_value_def throw_error_def
        or_else_def plain_decode_values sample_texts_nonempty)
  moreover have "deleteReadingList plain_decode ''l1'' (Response 404 object_body_text) =
      Inl (Error (JStr ''Reading list not found''))"
    by (simp add: deleteReadingList_def read_error_body_def truthy_value_def throw_error_def
        or_else_def plain_decode_values sample_texts_nonempty)
  ultimately show ?thesis
    by (simp add: sample_decode_error plain_decode_values)
qed

text \<open>
  The amended C4 at sample responses: a direct and an enveloped error text at 401; an
  empty body at 500, the empty object at 403 and the envelope around it at 500; for
  \<open>updateReadingList\<close> an empty body at 500 and, at 400, a direct error text, an empty body
  and the empty object.
\<close>

theorem mutation_error_messages_witness:
  "createBook sample_decode (Response 401 error_text) = Inl (Error (JStr ''Token expired'')) \<and>
   deleteReadingList sample_decode ''l1'' (Response 401 error_envelope_text) =
     Inl (Error (JStr ''Token expired'')) \<and>
   deleteReadingList sample_decode ''l1'' (Response 500 []) =
     Inl (Error (JStr ''Failed to delete reading list'')) \<and>
   createBook plain_decode (Response 403 empty_object_text) =
     Inl (Error (JStr ''Forbidden: Admin access required'')) \<and>
   deleteBook plain_decode ''b1'' (Response 500 empty_envelope_text) =
     Inl (Error (JStr ''Failed to delete book'')) \<and>
   updateReadingList sample_decode (Response 500 []) =
     Inl (Error (JStr ''Failed to update reading list'')) \<and>
   updateReadingList sample_decode (Response 400 error_text) =
     Inl (Error (JStr ''Token expired'')) \<and>
   updateReadingList sample_decode (Response 400 []) = Inl (Error (JStr ''Invalid request'')) \<and>
   updateReadingList plain_decode (Response 400 empty_object_text) =
     Inl (Error (JStr ''Invalid request'')) \<and>
   createReadingList sample_decode (Response 401 error_text) =
     Inl (Error (JStr ''Failed to create reading list''))"
proof -
  have nok: "\<not> ok 401" "\<not> ok 500" "\<not> ok 400" "\<not> ok 403"
    by (simp_all add: ok_def)
  have ident: "''l1'' \<noteq> []" "''b1'' \<noteq> []" by simp_all
  have m: "''Token expired'' \<noteq> []" by simp
  note direct = mutation_error_messages [of 401 sample_decode "''l1''" error_text
      "[(''error'', JStr ''Token expired'')]" "[]" "[]" "''Token expired''",
      OF nok(1) sample_decode_empty ident(1)]
  note envelope = mutation_error_messages [of 401 sample_decode "''l1''" error_envelope_text
      "[(''error'', JStr ''Token expired'')]"
      "[(''statusCode'', JNum 401), (''body'', JStr error_text)]" error_text "''Token expired''",
      OF nok(1) sample_decode_empty ident(1)]
  note empty = mutation_error_messages [of 500 sample_decode "''l1''" "[]"
      "[]" "[]" "[]" "''Token expired''", OF nok(2) sample_decode_empty ident(1)]
  note object = mutation_error_messages [of 403 plain_decode "''b1''" empty_object_text
      "[]" "[]" "[]" "''Token expired''", OF nok(4) plain_decode_values(1) ident(2)]
  note wrapped = mutation_error_messages [of 500 plain_decode "''b1''" empty_envelope_text
      "[]" "[(''statusCode'', JNum 500), (''body'', JStr empty_object_text)]" empty_object_text
      "''Token expired''", OF nok(2) plain_decode_values(1) ident(2)]
  note upd_direct = mutation_error_messages [of 400 sample_decode "''l1''" error_text
      "[(''error'', JStr ''Token expired'')]" "[]" "[]" "''Token expired''",
      OF nok(3) sample_decode_empty ident(1)]
  note upd_empty = mutation_error_messages [of 400 sample_decode "''l1''" "[]"
      "[]" "[]" "[]" "''Token expired''", OF nok(3) sample_decode_empty ident(1)]
  note upd_object = mutation_error_messages [of 400 plain_decode "''l1''" empty_object_text
      "[]" "[]" "[]" "''Token expired''", OF nok(3) plain_decode_values(1) ident(1)]
  have 1: "createBook sample_decode (Response 401 error_text) =
      Inl (Error (JStr ''Token expired''))"
    using direct m sample_decode_error by simp
  have 2: "deleteReadingList sample_decode ''l1'' (Response 401 error_envelope_text) =
      Inl (Error (JStr ''Token expired''))"
    using envelope m sample_decode_error sample_decode_error_envelope by simp
  have 3: "deleteReadingList sample_decode ''l1'' (Response 500 []) =
      Inl (Error (JStr ''Failed to delete reading list''))"
    using empty sample_decode_empty by (simp add: deleteReadingList_fallback_def)
  have 4: "createBook plain_decode (Response 403 empty_object_text) =
      Inl (Error (JStr ''Forbidden: Admin access required''))"
    using object plain_decode_values by (simp add: createBook_fallback_def)
  have 5: "deleteBook plain_decode ''b1'' (Response 500 empty_envelope_text) =
      Inl (Error (JStr ''Failed to delete book''))"
    using wrapped plain_decode_values by (simp add: deleteBook_fallback_def)
  have 6: "updateReadingList sample_decode (Response 500 []) =
      Inl (Error (JStr ''Failed to update reading list''))"
    using empty by (simp add: updateReadingList_fallback_def)
  have 7: "updateReadingList sample_decode (Response 400 error_text) =
      Inl (Error (JStr ''Token expired''))"
    using upd_direct m sample_decode_error by simp
  have 8: "updateReadingList sample_decode (Response 400 []) =
      Inl (Error (JStr ''Invalid request''))"
    using upd_empty sample_decode_empty by simp
  have 9: "updateReadingList plain_decode (Response 400 empty_object_text) =
      Inl (Error (JStr ''Invalid request''))"
    using upd_object plain_decode_values by simp
  have 10: "createReadingList sample_decode (Response 401 error_text) =
      Inl (Error (JStr ''Failed to create reading list''))"
    using direct by simp
  from 1 2 3 4 5 6 7 8 9 10 show ?thesis
    by simp
qed

text \<open>
  C5 (as amended).  For a response whose body does not decode (it is empty or not JSON):
  with a status outside 200..299 every call throws its fixed message for the status,
  except that \<open>getBook\<close> returns \<^verbatim>\<open>null\<close> at 404; with a status in 200..299, \<open>createBook\<close> and
  \<open>updateBook\<close> return \<^verbatim>\<open>null\<close>, \<open>deleteBook\<close> and \<open>deleteReadingList\<close> return normally, and
  \<open>getBooks\<close>, \<open>getBook\<close>, \<open>getRecommendations\<close>, \<open>getReadingLists\<close>, \<open>createReadingList\<close>
  and \<open>updateReadingList\<close> throw the decode error.
\<close>

theorem undecodable_body_outcomes:
  assumes "decode (JStr txt) = None" and "ident \<noteq> []"
  shows "(\<not> ok st \<longrightarrow>
            getBooks decode (Response st txt) = Inl (Error (JStr ''Failed to fetch books'')) \<and>
            getBook decode (Response st txt) =
              (if st = 404 then Inr JNull else Inl (Error (JStr ''Failed to fetch book''))) \<and>
            getRecommendations decode (Response st txt) =
              Inl (Error (JStr ''Failed to get recommendations'')) \<and>
            getReadingLists decode (Response st txt) =
              Inl (Error (JStr ''Failed to fetch reading lists'')) \<and>
            createReadingList decode (Response st txt) =
              Inl (Error (JStr ''Failed to create reading list'')) \<and>
            updateReadingList decode (Response st txt) =
              Inl (Error (JStr (updateReadingList_fallback st))) \<and>
            createBook decode (Response st txt) = Inl (Error (JStr (createBook_fallback st))) \<and>
            updateBook decode ident (Response st txt) =
              Inl (Error (JStr (updateBook_fallback st))) \<and>
            deleteBook decode ident (Response st txt) =
              Inl (Error (JStr (deleteBook_fallback st))) \<and>
            deleteReadingList decode ident (Response st txt) =
              Inl (Error (JStr (deleteReadingList_fallback st)))) \<and>
         (ok st \<longrightarrow>
            createBook decode (Response st txt) = Inr JNull \<and>
            updateBook decode ident (Response st txt) = Inr JNull \<and>
            deleteBook decode ident (Response st txt) = Inr () \<and>
            deleteReadingList decode ident (Response st txt) = Inr () \<and>
            getBooks decode (Response st txt) = Inl SyntaxError \<and>
            getBook decode (Response st txt) = Inl SyntaxError \<and>
            getRecommendations decode (Response st txt) = Inl SyntaxError \<and>
            getReadingLists decode (Response st txt) = Inl SyntaxError \<and>
            createReadingList decode (Response st txt) = Inl SyntaxError \<and>
            updateReadingList decode (Response st txt) = Inl SyntaxError)"
proof (intro conjI impI)
  assume nok: "\<not> ok st"
  show "getBooks decode (Response st txt) = Inl (Error (JStr ''Failed to fetch books''))"
    using nok by (simp add: getBooks_def)
  show "getBook decode (Response st txt) =
      (if st = 404 then Inr JNull else Inl (Error (JStr ''Failed to fetch book'')))"
    using nok by (simp add: getBook_def)
  show "getRecommendations decode (Response st txt) =
      Inl (Error (JStr ''Failed to get recommendations''))"
    using nok by (simp add: getRecommendations_def)
  show "getReadingLists decode (Response st txt) =
      Inl (Error (JStr ''Failed to fetch reading lists''))"
    using nok by (simp add: getReadingLists_def)
  show "createReadingList decode (Response st txt) =
      Inl (Error (JStr ''Failed to create reading list''))"
    using nok by (simp add: createReadingList_def)
  show "updateReadingList decode (Response st txt) =
      Inl (Error (JStr (updateReadingList_fallback st)))"
    using nok assms(1)
    by (simp add: updateReadingList_not_ok throw_error_fallback updateReadingList_fallback_def)
  show "createBook decode (Response st txt) = Inl (Error (JStr (createBook_fallback st)))"
    using nok assms(1)
    by (simp add: createBook_not_ok read_book_body_undecodable throw_error_fallback)
  show "updateBook decode ident (Response st txt) = Inl (Error (JStr (updateBook_fallback st)))"
    using nok assms
    by (simp add: updateBook_not_ok read_book_body_undecodable throw_error_fallback)
  show "deleteBook decode ident (Response st txt) = Inl (Error (JStr (deleteBook_fallback st)))"
    using nok assms
    by (simp add: deleteBook_not_ok read_error_body_undecodable throw_error_fallback)
  show "deleteReadingList decode ident (Response st txt) =
      Inl (Error (JStr (deleteReadingList_fallback st)))"
    using nok assms
    by (simp add: deleteReadingList_not_ok read_error_body_undecodable throw_error_fallback)
next
  assume k: "ok st"
  note codes = ok_not_error_status [OF k]
  show "createBook decode (Response st txt) = Inr JNull"
    using k codes assms(1) by (simp add: createBook_def read_book_body_undecodable)
  show "updateBook decode ident (Response st txt) = Inr JNull"
    using k codes assms by (simp add: updateBook_def read_book_body_undecodable)
  show "deleteBook decode ident (Response st txt) = Inr ()"
    using k codes assms by (simp add: deleteBook_def)
  show "deleteReadingList decode ident (Response st txt) = Inr ()"
    using k codes assms by (simp add: deleteReadingList_def)
  show "getBooks decode (Response st txt) = Inl SyntaxError"
    using k assms(1) by (simp add: getBooks_def response_json_def JSON_parse_def)
  show "getBook decode (Response st txt) = Inl SyntaxError"
    using k codes assms(1) by (simp add: getBook_def response_json_def JSON_parse_def)
  show "getRecommendations decode (Response st txt) = Inl SyntaxError"
    using k assms(1) by (simp add: getRecommendations_def response_json_def JSON_parse_def)
  show "getReadingLists decode (Response st txt) = Inl SyntaxError"
    using k assms(1) by (simp add: getReadingLists_def response_json_def JSON_parse_def)
  show "createReadingList decode (Response st txt) = Inl SyntaxError"
    using k assms(1) by (simp add: createReadingList_def response_json_def JSON_parse_def)
  show "updateReadingList decode (Response st txt) = Inl SyntaxError"
    using k codes assms(1) by (simp add: updateReadingList_def response_json_def JSON_parse_def)
qed

text \<open>
  C5 as stated fails: on a 200 response with an empty body, \<open>getBooks\<close>,
  \<open>getReadingLists\<close> and \<open>createReadingList\<close> throw the decode error.
\<close>

theorem getBooks_empty_body_decode_error:
  "sample_decode (JStr []) = None \<and>
   getBooks sample_decode (Response 200 []) = Inl SyntaxError \<and>
   getReadingLists sample_decode (Response 200 []) = Inl SyntaxError \<and>
   createReadingList sample_decode (Response 200 []) = Inl SyntaxError"
  by (simp add: sample_decode_empty getBooks_def getReadingLists_def createReadingList_def
      response_json_def JSON_parse_def ok_def)

text \<open>The amended C5 at empty bodies with the statuses 500, 404, 201 and 200.\<close>

theorem undecodable_body_outcomes_witness:
  "getBooks sample_decode (Response 500 []) = Inl (Error (JStr ''Failed to fetch books'')) \<and>
   createBook sample_decode (Response 500 []) = Inl (Error (JStr ''Failed to create book'')) \<and>
   getBook sample_decode (Response 404 []) = Inr JNull \<and>
   createBook sample_decode (Response 201 []) = Inr JNull \<and>
   deleteReadingList sample_decode ''l1'' (Response 200 []) = Inr () \<and>
   getReadingLists sample_decode (Response 200 []) = Inl SyntaxError"
proof -
  have ident: "''l1'' \<noteq> []" by simp
  have st: "\<not> ok 500" "\<not> ok 404" "ok 201" "ok 200"
    by (simp_all add: ok_def)
  note a = undecodable_body_outcomes [of sample_decode "[]" "''l1''" 500, OF sample_decode_empty ident]
  note b = undecodable_body_outcomes [of sample_decode "[]" "''l1''" 404, OF sample_decode_empty ident]
  note c = undecodable_body_outcomes [of sample_decode "[]" "''l1''" 201, OF sample_decode_empty ident]
  note d = undecodable_body_outcomes [of sample_decode "[]" "''l1''" 200, OF sample_decode_empty ident]
  show ?thesis
    using a b c d st by (simp add: createBook_fallback_def)
qed


section \<open>Removing a book from the selected list\<close>

lemma notification_kinds:
  "is_success (showSuccess registered m)" "\<not> is_error (showSuccess registered m)"
  "is_error (handleApiError registered e)" "\<not> is_success (handleApiError registered e)"
  by (simp_all add: showSuccess_def handleApiError_def)

text \<open>
  C2.  When a list is selected and the \<open>updateReadingList\<close> call of \<open>handleRemoveBook\<close>
  fails, the books in view, the selected list and the cached lists are afterwards what
  they were before, the one notification emitted is the error notification for the
  failure, and the one call made is the update request.
\<close>

theorem handleRemoveBook_failure_keeps_state:
  assumes "selectedList s = Some sel"
  shows "listBooks (fst (handleRemoveBook registered s bookId (Inl e))) = listBooks s \<and>
         selectedList (fst (handleRemoveBook registered s bookId (Inl e))) = selectedList s \<and>
         lists (fst (handleRemoveBook registered s bookId (Inl e))) = lists s \<and>
         notifications (snd (handleRemoveBook registered s bookId (Inl e))) =
           [handleApiError registered e] \<and>
         is_error (handleApiError registered e) \<and>
         calls (snd (handleRemoveBook registered s bookId (Inl e))) =
           [UpdateReadingList (list_id sel) (filter (\<lambda>i. i \<noteq> bookId) (bookIds sel))]"
  using assms
  by (simp add: handleRemoveBook_def handleRemoveBook_request_def handleRemoveBook_settle_def
      notifications_def calls_def notification_kinds)

text \<open>
  C2 on the sample page, for a rejected fetch.
\<close>

theorem handleRemoveBook_failure_keeps_state_witness:
  "listBooks (fst (handleRemoveBook True sample_page ''b1'' (Inl FetchRejected))) =
     [sample_book1, sample_book2] \<and>
   selectedList (fst (handleRemoveBook True sample_page ''b1'' (Inl FetchRejected))) =
     Some sample_list \<and>
   lists (fst (handleRemoveBook True sample_page ''b1'' (Inl FetchRejected))) =
     [sample_list, other_list] \<and>
   notifications (snd (handleRemoveBook True sample_page ''b1'' (Inl FetchRejected))) =
     [ToastError (MessageOf FetchRejected)]"
proof -
  have sel: "selectedList sample_page = Some sample_list"
    by (simp add: sample_page_def)
  show ?thesis
    using handleRemoveBook_failure_keeps_state [OF sel, of True "''b1''" FetchRejected]
    by (simp add: sample_page_def closed_page_def handleApiError_def)
qed

text \<open>
  C3 (as amended).  At the moment \<open>handleRemoveBook\<close> issues the update request the books
  in view are unchanged; the book is removed from the view only after the server has
  confirmed the update, and the view stays as it was when the update fails.
\<close>

theorem removal_awaits_confirmation:
  assumes "handleRemoveBook_request s bookId = Some (s1, request)"
  shows "listBooks s1 = listBooks s \<and>
         listBooks (fst (handleRemoveBook_settle registered s sel bookId (Inr updatedList) s1)) =
           filter (\<lambda>book. book_id book \<noteq> bookId) (listBooks s) \<and>
         listBooks (fst (handleRemoveBook_settle registered s sel bookId (Inl e) s1)) =
           listBooks s"
  using assms
  by (auto simp: handleRemoveBook_request_def handleRemoveBook_settle_def split: option.splits)

text \<open>
  C3 as stated fails: on the sample page, when the request to remove \<open>b1\<close> is issued, the
  view still holds \<open>b1\<close>.
\<close>

theorem removal_not_optimistic:
  "map_option (\<lambda>(s1, request). (listBooks s1, request))
     (handleRemoveBook_request sample_page ''b1'') =
   Some ([sample_book1, sample_book2], UpdateReadingList ''l1'' [''b2''])"
  by (simp add: handleRemoveBook_request_def sample_page_def closed_page_def sample_list_def)

text \<open>
  The amended C3 on the sample page.
\<close>

theorem removal_awaits_confirmation_witness:
  "handleRemoveBook_request sample_page ''b1'' =
     Some (sample_page\<lparr>removingBookId := Some ''b1''\<rparr>, UpdateReadingList ''l1'' [''b2'']) \<and>
   listBooks (sample_page\<lparr>removingBookId := Some ''b1''\<rparr>) = [sample_book1, sample_book2] \<and>
   listBooks (fst (handleRemoveBook_settle True sample_page sample_list ''b1''
       (Inr (sample_list\<lparr>bookIds := [''b2'']\<rparr>)) (sample_page\<lparr>removingBookId := Some ''b1''\<rparr>))) =
     [sample_book2]"
proof -
  have r: "handleRemoveBook_request sample_page ''b1'' =
     Some (sample_page\<lparr>removingBookId := Some ''b1''\<rparr>, UpdateReadingList ''l1'' [''b2''])"
    by (simp add: handleRemoveBook_request_def sample_page_def closed_page_def sample_list_def)
  show ?thesis
    using r removal_awaits_confirmation [OF r, of True sample_list
        "sample_list\<lparr>bookIds := [''b2'']\<rparr>" FetchRejected]
    by (simp add: sample_page_def closed_page_def sample_book1_def sample_book2_def)
qed

text \<open>
  C10.  With no list selected, \<open>handleRemoveBook\<close> returns at once: no request is issued,
  the state is unchanged and there is no effect of any kind, so in particular no network
  call and no notification.
\<close>

theorem handleRemoveBook_without_selection:
  assumes "selectedList s = None"
  shows "handleRemoveBook registered s bookId outcome = (s, []) \<and>
         handleRemoveBook_request s bookId = None"
  using assms by (simp add: handleRemoveBook_def handleRemoveBook_request_def)

text \<open>
  C10 on the page with no list open.
\<close>

theorem handleRemoveBook_without_selection_witness:
  "handleRemoveBook True closed_page ''b1'' (Inr sample_list) = (closed_page, []) \<and>
   handleRemoveBook_request closed_page ''b1'' = None"
proof -
  have "selectedList closed_page = None"
    by (simp add: closed_page_def)
  then show ?thesis
    by (rule handleRemoveBook_without_selection)
qed


section \<open>Notifications of the mutating handlers\<close>

text \<open>
  C8 (as amended).  A mutating handler that reaches its API call makes exactly that one
  call and then emits exactly one notification: the success notification when the call
  returns, the error notification when it throws; no notification is both.  The paths
  that return before the call emit no notification: \<open>handleCreateList\<close> with a blank
  name shows one plain alert, \<open>handleRemoveBook\<close> without a selected list has no effect,
  and \<open>handleDeleteList\<close> without an accepted confirmation leaves the state as it is and
  only asks for the confirmation.
\<close>

theorem mutations_notify_once_after_call:
  "(trim (newListName s) = [] \<longrightarrow>
      snd (handleCreateList registered s created) = [PlainAlert ''Please enter a list name'']) \<and>
   (trim (newListName s) \<noteq> [] \<longrightarrow>
      calls (snd (handleCreateList registered s created)) =
        [CreateReadingList ''1'' (newListName s) (newListDescription s) []] \<and>
      notifications (snd (handleCreateList registered s created)) =
        [case created of
           Inr l \<Rightarrow> showSuccess registered ''Reading list created successfully!''
         | Inl e \<Rightarrow> handleApiError registered e]) \<and>
   (selectedList s = None \<longrightarrow> snd (handleRemoveBook registered s bookId updated) = []) \<and>
   (selectedList s \<noteq> None \<longrightarrow>
      length (calls (snd (handleRemoveBook registered s bookId updated))) = 1 \<and>
      notifications (snd (handleRemoveBook registered s bookId updated)) =
        [case updated of
           Inr l \<Rightarrow> showSuccess registered ''Book removed from reading list successfully!''
         | Inl e \<Rightarrow> handleApiError registered e]) \<and>
   (answer \<noteq> Some True \<longrightarrow>
      handleDeleteList registered s listId answer deleted = (s, [Confirm delete_confirmation])) \<and>
   (answer = Some True \<longrightarrow>
      calls (snd (handleDeleteList registered s listId answer deleted)) =
        [DeleteReadingList listId] \<and>
      notifications (snd (handleDeleteList registered s listId answer deleted)) =
        [case deleted of
           Inr u \<Rightarrow> showSuccess registered ''Reading list deleted successfully!''
         | Inl e \<Rightarrow> handleApiError registered e]) \<and>
   is_success (showSuccess registered m) \<and> \<not> is_error (showSuccess registered m) \<and>
   is_error (handleApiError registered e) \<and> \<not> is_success (handleApiError registered e)"
proof -
  have create: "snd (handleCreateList registered s created) =
      (if trim (newListName s) = [] then [PlainAlert ''Please enter a list name'']
       else [Call (CreateReadingList ''1'' (newListName s) (newListDescription s) []),
             Notify (case created of
               Inr l \<Rightarrow> showSuccess registered ''Reading list created successfully!''
             | Inl e \<Rightarrow> handleApiError registered e)])"
    by (simp add: handleCreateList_def Let_def split: sum.splits)
  have remove: "snd (handleRemoveBook registered s bookId updated) =
      (case selectedList s of
         None \<Rightarrow> []
       | Some sel \<Rightarrow>
           [Call (UpdateReadingList (list_id sel) (filter (\<lambda>i. i \<noteq> bookId) (bookIds sel))),
            Notify (case updated of
              Inr l \<Rightarrow> showSuccess registered ''Book removed from reading list successfully!''
            | Inl e \<Rightarrow> handleApiError registered e)])"
    by (simp add: handleRemoveBook_def handleRemoveBook_request_def handleRemoveBook_settle_def
        split: option.splits sum.splits)
  have delete: "handleDeleteList registered s listId answer deleted =
        (s, [Confirm delete_confirmation])" if "answer \<noteq> Some True"
    using that by (simp add: handleDeleteList_def)
  have delete': "snd (handleDeleteList registered s listId (Some True) deleted) =
      [Confirm delete_confirmation, Call (DeleteReadingList listId),
       Notify (case deleted of
         Inr u \<Rightarrow> showSuccess registered ''Reading list deleted successfully!''
       | Inl e \<Rightarrow> handleApiError registered e)]"
    by (simp add: handleDeleteList_def Let_def split: sum.splits)
  show ?thesis
    unfolding create remove
    using delete delete'
    by (auto simp: calls_def notifications_def notification_kinds)
qed

text \<open>
  C8 as stated fails: when the user declines the confirmation, \<open>handleDeleteList\<close> emits
  no notification at all.
\<close>

theorem declined_delete_emits_nothing:
  "notifications (snd (handleDeleteList True sample_page ''l1'' (Some False) (Inr ()))) = [] \<and>
   calls (snd (handleDeleteList True sample_page ''l1'' (Some False) (Inr ()))) = []"
  by (simp add: handleDeleteList_def notifications_def calls_def)

text \<open>
  The amended C8 on the sample pages: an empty list name, a name of a space, a no-break
  space and a tab, and a filled-in name; a removal without and with a selected list; a
  declined and an accepted deletion.
\<close>

theorem mutations_notify_once_after_call_witness:
  "snd (handleCreateList True closed_page (Inr other_list)) =
     [PlainAlert ''Please enter a list name''] \<and>
   snd (handleCreateList True (closed_page\<lparr>newListName := [CHR 0x20, CHR 0xA0, CHR 0x09]\<rparr>)
      (Inr other_list)) = [PlainAlert ''Please enter a list name''] \<and>
   notifications (snd (handleCreateList True (closed_page\<lparr>newListName := ''Classics''\<rparr>)
      (Inr other_list))) = [ToastSuccess ''Reading list created successfully!''] \<and>
   snd (handleRemoveBook True closed_page ''b1'' (Inl FetchRejected)) = [] \<and>
   notifications (snd (handleRemoveBook True sample_page ''b1'' (Inl FetchRejected))) =
     [ToastError (MessageOf FetchRejected)] \<and>
   handleDeleteList True sample_page ''l1'' (Some False) (Inr ()) =
     (sample_page, [Confirm delete_confirmation]) \<and>
   notifications (snd (handleDeleteList True sample_page ''l1'' (Some True) (Inr ()))) =
     [ToastSuccess ''Reading list deleted successfully!'']"
proof -
  have blank: "trim (newListName closed_page) = []"
    by (simp add: closed_page_def trim_def)
  have spaces: "trim (newListName (closed_page\<lparr>newListName := [CHR 0x20, CHR 0xA0, CHR 0x09]\<rparr>)) = []"
    by (simp add: trim_def is_space_def)
  have named: "trim (newListName (closed_page\<lparr>newListName := ''Classics''\<rparr>)) \<noteq> []"
    by (simp add: trim_def is_space_def)
  have none: "selectedList closed_page = None"
    by (simp add: closed_page_def)
  have some: "selectedList sample_page \<noteq> None"
    by (simp add: sample_page_def)
  have declined: "Some False \<noteq> Some True" by simp
  note a = mutations_notify_once_after_call [of closed_page True "Inr other_list" "''b1''"
      "Inl FetchRejected" "Some False" "''l1''" "Inr ()" "[]" FetchRejected]
  note a' = mutations_notify_once_after_call [of
      "closed_page\<lparr>newListName := [CHR 0x20, CHR 0xA0, CHR 0x09]\<rparr>" True "Inr other_list"
      "''b1''" "Inl FetchRejected" "Some False" "''l1''" "Inr ()" "[]" FetchRejected]
  note b = mutations_notify_once_after_call [of "closed_page\<lparr>newListName := ''Classics''\<rparr>" True
      "Inr other_list" "''b1''" "Inl FetchRejected" "Some True" "''l1''" "Inr ()" "[]" FetchRejected]
  note c = mutations_notify_once_after_call [of sample_page True "Inr other_list" "''b1''"
      "Inl FetchRejected" "Some False" "''l1''" "Inr ()" "[]" FetchRejected]
  note d = mutations_notify_once_after_call [of sample_page True "Inr other_list" "''b1''"
      "Inl FetchRejected" "Some True" "''l1''" "Inr ()" "[]" FetchRejected]
  show ?thesis
    using a a' b c d blank spaces named none some declined
    by (simp add: showSuccess_def handleApiError_def)
qed


section \<open>Loading the books of a list\<close>

lemma promise_all_fulfilled:
  assumes "\<forall>p\<in>set ps. \<exists>v. snd p = Inr v"
  shows "promise_all ps = Inr (map (\<lambda>p. projr (snd p)) ps)"
proof -
  have "rejections ps = [] \<and> fulfilments ps = map (\<lambda>p. projr (snd p)) ps"
    using assms by (induction ps rule: rejections.induct) auto
  then show ?thesis
    by (simp add: promise_all_def)
qed

lemma rejections_iff: "(t, x) \<in> set (rejections ps) \<longleftrightarrow> (t, Inl x) \<in> set ps"
  by (induction ps rule: rejections.induct) auto

lemma promise_all_rejected:
  assumes "p \<in> set ps" and "snd p = Inl e"
  shows "\<exists>q\<in>set ps. \<exists>e'. snd q = Inl e' \<and> promise_all ps = Inl e'"
proof -
  have "(fst p, e) \<in> set (rejections ps)"
    using assms by (simp add: rejections_iff) (metis prod.collapse)
  then have ne: "rejections ps \<noteq> []"
    by auto
  then have "arg_min_list fst (rejections ps) \<in> set (rejections ps)"
    by (rule arg_min_list_in)
  then have "(fst (arg_min_list fst (rejections ps)),
      Inl (snd (arg_min_list fst (rejections ps)))) \<in> set ps"
    by (metis rejections_iff prod.collapse)
  moreover have "promise_all ps = Inl (snd (arg_min_list fst (rejections ps)))"
    using ne by (simp add: promise_all_def split: list.splits)
  ultimately show ?thesis
    by force
qed








section \<open>The view and the selected list\<close>

lemma handleListClick_begin_settle:
  "handleListClick registered fetchBook s l =
     (case loadListBooks_settle registered (promise_all (map fetchBook (bookIds l)))
             (handleListClick_begin s l) of
        (s', effs) \<Rightarrow> (s', map (\<lambda>i. Call (GetBook i)) (bookIds l) @ effs))"
  by (simp add: handleListClick_def loadListBooks_def handleListClick_begin_def)

lemma set_non_null: "set (non_null bs) = {b. Some b \<in> set bs}"
  by (induction bs) (auto simp: non_null_def split: option.splits)

lemma loadListBooks_settle_state:
  "fst (loadListBooks_settle registered outcome cur) =
     (case outcome of
        Inr books \<Rightarrow> cur\<lparr>listBooks := non_null books, isLoadingBooks := False\<rparr>
      | Inl e \<Rightarrow> cur\<lparr>isLoadingBooks := False\<rparr>)"
  by (simp add: loadListBooks_settle_def split: sum.splits)

lemma handleListClick_state:
  "fst (handleListClick registered fetchBook s l) =
     fst (loadListBooks_settle registered (promise_all (map fetchBook (bookIds l)))
            (handleListClick_begin s l))"
  by (simp add: handleListClick_begin_settle split: prod.splits)

lemma handleRemoveBook_state:
  "fst (handleRemoveBook registered s bookId outcome) =
     (case selectedList s of
        None \<Rightarrow> s
      | Some sel \<Rightarrow>
          (case outcome of
             Inr updatedList \<Rightarrow>
               s\<lparr>selectedList := Some updatedList,
                 listBooks := filter (\<lambda>book. book_id book \<noteq> bookId) (listBooks s),
                 lists := map (\<lambda>l. if list_id l = list_id sel then updatedList else l) (lists s),
                 removingBookId := None\<rparr>
           | Inl e \<Rightarrow> s\<lparr>removingBookId := None\<rparr>))"
  by (simp add: handleRemoveBook_def handleRemoveBook_request_def handleRemoveBook_settle_def
      split: option.splits sum.splits)

text \<open>
  C9 (as amended).  For handlers that run one after the other, the invariant that the
  books in view belong to the selected list is preserved by \<open>loadLists\<close>,
  \<open>handleCreateList\<close>, closing the modal, \<open>handleDeleteList\<close> and a failed
  \<open>handleRemoveBook\<close>; by a successful \<open>handleRemoveBook\<close> when the list the server returns
  still holds every identifier that was sent; and by \<open>handleListClick\<close> when every
  identifier resolves and each book returned carries the identifier it was requested
  under (the view is then recomputed in full from the resolutions), or when the
  resolution fails while the view is empty.
\<close>

theorem view_within_list_preserved:
  assumes "view_within_list s"
  shows "view_within_list (fst (loadLists registered s loaded)) \<and>
         view_within_list (fst (handleCreateList registered s created)) \<and>
         view_within_list (closeBooksModal s) \<and>
         view_within_list (fst (handleDeleteList registered s listId answer deleted)) \<and>
         view_within_list (fst (handleRemoveBook registered s bookId (Inl e))) \<and>
         ((\<forall>sel. selectedList s = Some sel \<longrightarrow>
              set (filter (\<lambda>i. i \<noteq> bookId) (bookIds sel)) \<subseteq> set (bookIds updatedList)) \<longrightarrow>
            view_within_list (fst (handleRemoveBook registered s bookId (Inr updatedList)))) \<and>
         ((\<forall>i\<in>set (bookIds l). \<exists>v. snd (fetchBook i) = Inr v) \<longrightarrow>
            listBooks (fst (handleListClick registered fetchBook s l)) =
              non_null (map (\<lambda>i. projr (snd (fetchBook i))) (bookIds l))) \<and>
         ((\<forall>i\<in>set (bookIds l). \<exists>v. snd (fetchBook i) = Inr v) \<and>
          (\<forall>i\<in>set (bookIds l). \<forall>b. snd (fetchBook i) = Inr (Some b) \<longrightarrow> book_id b = i) \<longrightarrow>
            view_within_list (fst (handleListClick registered fetchBook s l))) \<and>
         (listBooks s = [] \<and> (\<exists>i\<in>set (bookIds l). \<exists>e. snd (fetchBook i) = Inl e) \<longrightarrow>
            view_within_list (fst (handleListClick registered fetchBook s l)))"
proof (intro conjI impI)
  show "view_within_list (fst (loadLists registered s loaded))"
    using assms by (auto simp: loadLists_def view_within_list_def split: sum.splits option.splits)
  show "view_within_list (fst (handleCreateList registered s created))"
    using assms
    by (auto simp: handleCreateList_def view_within_list_def Let_def
        split: sum.splits option.splits)
  show "view_within_list (closeBooksModal s)"
    by (simp add: closeBooksModal_def view_within_list_def)
  show "view_within_list (fst (handleDeleteList registered s listId answer deleted))"
    using assms
    by (auto simp: handleDeleteList_def view_within_list_def Let_def
        split: sum.splits option.splits)
  show "view_within_list (fst (handleRemoveBook registered s bookId (Inl e)))"
    using assms by (auto simp: handleRemoveBook_state view_within_list_def split: option.splits)
next
  assume echo: "\<forall>sel. selectedList s = Some sel \<longrightarrow>
      set (filter (\<lambda>i. i \<noteq> bookId) (bookIds sel)) \<subseteq> set (bookIds updatedList)"
  show "view_within_list (fst (handleRemoveBook registered s bookId (Inr updatedList)))"
  proof (cases "selectedList s")
    case None
    then show ?thesis
      by (simp add: handleRemoveBook_state view_within_list_def)
  next
    case (Some sel)
    with assms have "set (map book_id (listBooks s)) \<subseteq> set (bookIds sel)"
      by (simp add: view_within_list_def)
    moreover from echo Some
    have "set (filter (\<lambda>i. i \<noteq> bookId) (bookIds sel)) \<subseteq> set (bookIds updatedList)"
      by simp
    ultimately show ?thesis
      using Some by (auto simp: handleRemoveBook_state view_within_list_def)
  qed
next
  assume all: "\<forall>i\<in>set (bookIds l). \<exists>v. snd (fetchBook i) = Inr v"
  then have "promise_all (map fetchBook (bookIds l)) =
      Inr (map (\<lambda>p. projr (snd p)) (map fetchBook (bookIds l)))"
    by (intro promise_all_fulfilled) auto
  then show "listBooks (fst (handleListClick registered fetchBook s l)) =
      non_null (map (\<lambda>i. projr (snd (fetchBook i))) (bookIds l))"
    by (simp add: handleListClick_state loadListBooks_settle_state comp_def)
next
  assume "(\<forall>i\<in>set (bookIds l). \<exists>v. snd (fetchBook i) = Inr v) \<and>
          (\<forall>i\<in>set (bookIds l). \<forall>b. snd (fetchBook i) = Inr (Some b) \<longrightarrow> book_id b = i)"
  then have all: "\<forall>i\<in>set (bookIds l). \<exists>v. snd (fetchBook i) = Inr v"
    and ids: "\<forall>i\<in>set (bookIds l). \<forall>b. snd (fetchBook i) = Inr (Some b) \<longrightarrow> book_id b = i"
    by simp_all
  from all have "promise_all (map fetchBook (bookIds l)) =
      Inr (map (\<lambda>p. projr (snd p)) (map fetchBook (bookIds l)))"
    by (intro promise_all_fulfilled) auto
  then have st: "fst (handleListClick registered fetchBook s l) =
      (handleListClick_begin s l)\<lparr>listBooks :=
         non_null (map (\<lambda>i. projr (snd (fetchBook i))) (bookIds l)), isLoadingBooks := False\<rparr>"
    by (simp add: handleListClick_state loadListBooks_settle_state comp_def)
  have "book_id b \<in> set (bookIds l)"
    if "b \<in> set (non_null (map (\<lambda>i. projr (snd (fetchBook i))) (bookIds l)))" for b
  proof -
    from that obtain i where i: "i \<in> set (bookIds l)" "projr (snd (fetchBook i)) = Some b"
      by (auto simp: set_non_null)
    with all have "snd (fetchBook i) = Inr (Some b)"
      by fastforce
    with ids i show ?thesis
      by auto
  qed
  then show "view_within_list (fst (handleListClick registered fetchBook s l))"
    by (auto simp: st view_within_list_def handleListClick_begin_def)
next
  assume "listBooks s = [] \<and> (\<exists>i\<in>set (bookIds l). \<exists>e. snd (fetchBook i) = Inl e)"
  then have empty: "listBooks s = []"
    and "\<exists>i\<in>set (bookIds l). \<exists>e. snd (fetchBook i) = Inl e"
    by simp_all
  then obtain i e where "i \<in> set (bookIds l)" "snd (fetchBook i) = Inl e"
    by blast
  then have "fetchBook i \<in> set (map fetchBook (bookIds l))" "snd (fetchBook i) = Inl e"
    by simp_all
  then have "\<exists>q\<in>set (map fetchBook (bookIds l)). \<exists>e'. snd q = Inl e' \<and>
      promise_all (map fetchBook (bookIds l)) = Inl e'"
    by (rule promise_all_rejected)
  then obtain e' where "promise_all (map fetchBook (bookIds l)) = Inl e'"
    by blast
  then show "view_within_list (fst (handleListClick registered fetchBook s l))"
    using empty
    by (simp add: handleListClick_state loadListBooks_settle_state view_within_list_def
        handleListClick_begin_def)
qed


text \<open>
  C9 as stated fails.  The page adopts whatever list the server returns: if the answer to
  removing \<open>b1\<close> is a list without books, \<open>b2\<close> stays in view under a list that does not
  hold it.  And two overlapping selections leave the books of the list clicked first in
  view under the list clicked second.
\<close>

theorem view_escapes_selected_list:
  "view_within_list sample_page \<and>
   \<not> view_within_list (fst (handleRemoveBook True sample_page ''b1'' (Inr emptied_list))) \<and>
   selectedList overlapped_page = Some other_list \<and>
   listBooks overlapped_page = [sample_book1, sample_book2] \<and>
   \<not> view_within_list overlapped_page"
  by (simp add: view_within_list_def handleRemoveBook_state overlapped_page_def
      loadListBooks_settle_state handleListClick_begin_def closeBooksModal_def non_null_def
      sample_page_def closed_page_def sample_list_def other_list_def emptied_list_def
      sample_book1_def sample_book2_def)

text \<open>
  The amended C9 on the sample pages.
\<close>

theorem view_within_list_preserved_witness:
  "view_within_list (fst (handleRemoveBook True sample_page ''b1''
      (Inr (sample_list\<lparr>bookIds := [''b2'']\<rparr>)))) \<and>
   view_within_list (fst (handleDeleteList True sample_page ''l1'' (Some True) (Inr ()))) \<and>
   view_within_list (fst (handleListClick True sample_fetchBook closed_page sample_list)) \<and>
   listBooks (fst (handleListClick True sample_fetchBook closed_page sample_list)) =
     [sample_book1, sample_book2] \<and>
   view_within_list (fst (handleListClick True (\<lambda>i. (0, Inl FetchRejected)) closed_page
      sample_list))"
proof -
  have inv: "view_within_list sample_page" "view_within_list closed_page"
    by (simp_all add: view_within_list_def sample_page_def closed_page_def sample_list_def
        sample_book1_def sample_book2_def)
  have echo: "\<forall>sel. selectedList sample_page = Some sel \<longrightarrow>
      set (filter (\<lambda>i. i \<noteq> ''b1'') (bookIds sel)) \<subseteq> set (bookIds (sample_list\<lparr>bookIds := [''b2'']\<rparr>))"
    by (auto simp: sample_page_def sample_list_def)
  have found: "\<forall>i\<in>set (bookIds sample_list). \<exists>v. snd (sample_fetchBook i) = Inr v"
    by (simp add: sample_list_def sample_fetchBook_def)
  have ids: "\<forall>i\<in>set (bookIds sample_list). \<forall>b. snd (sample_fetchBook i) = Inr (Some b) \<longrightarrow>
      book_id b = i"
    by (simp add: sample_list_def sample_fetchBook_def sample_book1_def sample_book2_def)
  have failing: "listBooks closed_page = [] \<and>
      (\<exists>i\<in>set (bookIds sample_list). \<exists>e. snd ((\<lambda>i. (0::nat, Inl FetchRejected :: thrown + Book option)) i) = Inl e)"
    by (auto simp: closed_page_def sample_list_def)
  note a = view_within_list_preserved [OF inv(1), of True "Inl FetchRejected" "Inl FetchRejected"
      "''l1''" "Some True" "Inr ()" "''b1''" FetchRejected "sample_list\<lparr>bookIds := [''b2'']\<rparr>"
      sample_list sample_fetchBook]
  note b = view_within_list_preserved [OF inv(2), of True "Inl FetchRejected" "Inl FetchRejected"
      "''l1''" "Some True" "Inr ()" "''b1''" FetchRejected "sample_list\<lparr>bookIds := [''b2'']\<rparr>"
      sample_list sample_fetchBook]
  note c = view_within_list_preserved [OF inv(2), of True "Inl FetchRejected" "Inl FetchRejected"
      "''l1''" "Some True" "Inr ()" "''b1''" FetchRejected "sample_list\<lparr>bookIds := [''b2'']\<rparr>"
      sample_list "\<lambda>i. (0, Inl FetchRejected)"]
  have 1: "view_within_list (fst (handleRemoveBook True sample_page ''b1''
      (Inr (sample_list\<lparr>bookIds := [''b2'']\<rparr>))))"
    using a echo by blast
  have 2: "view_within_list (fst (handleDeleteList True sample_page ''l1'' (Some True) (Inr ())))"
    using a by blast
  have 3: "view_within_list (fst (handleListClick True sample_fetchBook closed_page sample_list))"
    using b found ids by blast
  have "listBooks (fst (handleListClick True sample_fetchBook closed_page sample_list)) =
      non_null (map (\<lambda>i. projr (snd (sample_fetchBook i))) (bookIds sample_list))"
    using b found by blast
  then have 4: "listBooks (fst (handleListClick True sample_fetchBook closed_page sample_list)) =
     [sample_book1, sample_book2]"
    by (simp add: sample_list_def sample_fetchBook_def non_null_def)
  have 5: "view_within_list (fst (handleListClick True (\<lambda>i. (0, Inl FetchRejected)) closed_page
      sample_list))"
    using c failing by blast
  from 1 2 3 4 5 show ?thesis by simp
qed


section \<open>Resolution of confirmation requests\<close>

lemma settled_append:
  "settled (p\<lparr>resolutions := resolutions p @ [(k, v)], dialog := d\<rparr>) j =
     (case settled p j of Some w \<Rightarrow> Some w | None \<Rightarrow> if j = k then Some v else None)"
  by (simp add: settled_def map_add_def split: option.splits)

lemma resolutions_act:
  "resolutions (act p a) = resolutions p @
     (case dialog p of
        None \<Rightarrow> []
      | Some d \<Rightarrow>
          (case a of Ask opts \<Rightarrow> [] | Accept \<Rightarrow> [(resolve d, True)] | Dismiss \<Rightarrow> [(resolve d, False)]))"
  by (cases a) (simp_all add: confirm_def handleConfirm_def handleCancel_def split: option.splits)

lemma slot_fresh_act: "slot_fresh p \<Longrightarrow> slot_fresh (act p a)"
  by (cases a)
    (auto simp: slot_fresh_def slot_allocated_def confirm_def handleConfirm_def handleCancel_def
      split: option.splits)

lemma slot_fresh_run: "slot_fresh p \<Longrightarrow> slot_fresh (run as p)"
  unfolding run_def by (induction as arbitrary: p) (simp_all add: slot_fresh_act)

lemma slot_fresh_init: "slot_fresh provider_init"
  by (simp add: slot_fresh_def slot_allocated_def provider_init_def)

lemma abandoned_act: "abandoned p k \<Longrightarrow> abandoned (act p a) k"
  by (cases a)
    (auto simp: abandoned_def settled_def confirm_def handleConfirm_def handleCancel_def
      split: option.splits)

lemma abandoned_run: "abandoned p k \<Longrightarrow> abandoned (run as p) k"
  unfolding run_def by (induction as arbitrary: p) (simp_all add: abandoned_act)

lemma resolution_count_zero: "resolution_count p k = 0 \<longleftrightarrow> settled p k = None"
  by (auto simp: resolution_count_def settled_def map_of_eq_None_iff filter_empty_conv
      image_iff)

lemma count_key_le_one:
  "distinct (map fst xs) \<Longrightarrow> length (filter (\<lambda>r. fst r = k) xs) \<le> 1"
proof (induction xs)
  case Nil
  then show ?case by simp
next
  case (Cons x xs)
  show ?case
  proof (cases "fst x = k")
    case True
    with Cons.prems have "filter (\<lambda>r. fst r = k) xs = []"
      by (auto simp: filter_empty_conv image_iff)
    with True show ?thesis by simp
  next
    case False
    with Cons show ?thesis by simp
  qed
qed

lemma resolution_count_le_one:
  "distinct (map fst (resolutions p)) \<Longrightarrow> resolution_count p k \<le> 1"
  unfolding resolution_count_def by (rule count_key_le_one)

lemma slot_resolution:
  assumes fresh: "slot_fresh p" and d: "dialog p = Some d"
  shows "settled p (resolve d) = None \<and>
         settled (handleConfirm p) (resolve d) = Some True \<and>
         settled (handleCancel p) (resolve d) = Some False \<and>
         resolution_count (handleConfirm p) (resolve d) = 1 \<and>
         resolution_count (handleCancel p) (resolve d) = 1 \<and>
         (\<forall>opts. abandoned (snd (confirm opts p)) (resolve d))"
proof -
  from fresh d have notin: "resolve d \<notin> fst ` set (resolutions p)"
    and alloc: "resolve d < promises p"
    by (simp_all add: slot_fresh_def slot_allocated_def)
  from notin have unsettled: "settled p (resolve d) = None"
    by (simp add: settled_def map_of_eq_None_iff)
  from notin have none: "filter (\<lambda>r. fst r = resolve d) (resolutions p) = []"
    by (auto simp: filter_empty_conv image_iff)
  have "abandoned (snd (confirm opts p)) (resolve d)" for opts
    using unsettled alloc by (simp add: abandoned_def confirm_def settled_def)
  then show ?thesis
    using d unsettled none
    by (simp add: handleConfirm_def handleCancel_def settled_append resolution_count_def)
qed

text \<open>
  C6 (as amended).  In every state the provider reaches from its initial state, no
  promise has been resolved more than once, and a resolution is only ever added by the
  accept action (with \<^verbatim>\<open>true\<close>) or the cancel action (with \<^verbatim>\<open>false\<close>), for the request in the
  slot.  The promise \<open>confirm\<close> returns, and in general the request in the slot, is
  unresolved; accepting resolves it to \<^verbatim>\<open>true\<close>, cancelling to \<^verbatim>\<open>false\<close>, in each case by
  exactly one resolution.  A further \<open>confirm\<close>
  while it is pending abandons it, and an abandoned request is never resolved, whatever
  happens afterwards.
\<close>

theorem slot_request_resolves_once:
  assumes "p = run as provider_init"
  shows "(\<forall>k. resolution_count p k \<le> 1) \<and>
         (\<forall>a. resolutions (act p a) = resolutions p @
            (case dialog p of
               None \<Rightarrow> []
             | Some d \<Rightarrow>
                 (case a of
                    Ask opts \<Rightarrow> []
                  | Accept \<Rightarrow> [(resolve d, True)]
                  | Dismiss \<Rightarrow> [(resolve d, False)]))) \<and>
         (\<forall>opts. settled (snd (confirm opts p)) (fst (confirm opts p)) = None \<and>
            settled (handleConfirm (snd (confirm opts p))) (fst (confirm opts p)) = Some True \<and>
            settled (handleCancel (snd (confirm opts p))) (fst (confirm opts p)) = Some False) \<and>
         (\<forall>d. dialog p = Some d \<longrightarrow>
            settled p (resolve d) = None \<and>
            settled (handleConfirm p) (resolve d) = Some True \<and>
            settled (handleCancel p) (resolve d) = Some False \<and>
            resolution_count (handleConfirm p) (resolve d) = 1 \<and>
            resolution_count (handleCancel p) (resolve d) = 1 \<and>
            (\<forall>opts. abandoned (snd (confirm opts p)) (resolve d))) \<and>
         (\<forall>k. abandoned p k \<longrightarrow>
            (\<forall>bs. settled (run bs p) k = None \<and> resolution_count (run bs p) k = 0))"
proof -
  have fresh: "slot_fresh p"
    unfolding assms by (rule slot_fresh_run [OF slot_fresh_init])
  then have dist: "distinct (map fst (resolutions p))"
    by (simp add: slot_fresh_def)
  have once: "\<forall>k. resolution_count p k \<le> 1"
    using resolution_count_le_one [OF dist] by blast
  have log: "\<forall>a. resolutions (act p a) = resolutions p @
            (case dialog p of
               None \<Rightarrow> []
             | Some d \<Rightarrow>
                 (case a of
                    Ask opts \<Rightarrow> []
                  | Accept \<Rightarrow> [(resolve d, True)]
                  | Dismiss \<Rightarrow> [(resolve d, False)]))"
    by (simp add: resolutions_act)
  have new: "settled (snd (confirm opts p)) (fst (confirm opts p)) = None \<and>
      settled (handleConfirm (snd (confirm opts p))) (fst (confirm opts p)) = Some True \<and>
      settled (handleCancel (snd (confirm opts p))) (fst (confirm opts p)) = Some False"
    for opts
  proof -
    have "slot_fresh (act p (Ask opts))"
      using fresh by (rule slot_fresh_act)
    then have "slot_fresh (snd (confirm opts p))"
      by simp
    moreover have "dialog (snd (confirm opts p)) =
        Some \<lparr>isOpen = True, options = opts, resolve = fst (confirm opts p)\<rparr>"
      by (simp add: confirm_def)
    ultimately show ?thesis
      using slot_resolution [of "snd (confirm opts p)"
          "\<lparr>isOpen = True, options = opts, resolve = fst (confirm opts p)\<rparr>"]
      by simp
  qed
  have gone: "settled (run bs p) k = None \<and> resolution_count (run bs p) k = 0"
    if "abandoned p k" for k bs
  proof -
    from that have "abandoned (run bs p) k"
      by (rule abandoned_run)
    then have "settled (run bs p) k = None"
      by (simp add: abandoned_def)
    then show ?thesis
      by (simp add: resolution_count_zero)
  qed
  from once log new slot_resolution [OF fresh] gone show ?thesis
    by blast
qed


text \<open>
  C6 as stated fails: of two requests made in a row, the first is not resolved by the
  accept that follows, nor by anything after it.
\<close>

theorem replaced_request_never_resolves:
  "promises (run [Ask delete_confirmation, Ask delete_confirmation, Accept, Dismiss]
      provider_init) = 2 \<and>
   resolutions (run [Ask delete_confirmation, Ask delete_confirmation, Accept, Dismiss]
      provider_init) = [(1, True)] \<and>
   settled (run [Ask delete_confirmation, Ask delete_confirmation, Accept, Dismiss]
      provider_init) 0 = None \<and>
   resolution_count (run [Ask delete_confirmation, Ask delete_confirmation, Accept, Dismiss]
      provider_init) 0 = 0"
  by (simp add: run_def provider_init_def confirm_def handleConfirm_def handleCancel_def
      settled_def resolution_count_def)

text \<open>
  The amended C6 after one request, and after a second request has replaced the first.
\<close>

theorem slot_request_resolves_once_witness:
  "settled (handleConfirm (run [Ask delete_confirmation] provider_init)) 0 = Some True \<and>
   settled (handleCancel (run [Ask delete_confirmation] provider_init)) 0 = Some False \<and>
   resolution_count (handleConfirm (run [Ask delete_confirmation] provider_init)) 0 = 1 \<and>
   abandoned (snd (confirm delete_confirmation (run [Ask delete_confirmation] provider_init))) 0 \<and>
   settled (run [Accept, Dismiss] (run [Ask delete_confirmation, Ask delete_confirmation]
      provider_init)) 0 = None"
proof -
  let ?p = "run [Ask delete_confirmation] provider_init"
  let ?q = "run [Ask delete_confirmation, Ask delete_confirmation] provider_init"
  have d: "dialog ?p = Some \<lparr>isOpen = True, options = delete_confirmation, resolve = 0\<rparr>"
    by (simp add: run_def provider_init_def confirm_def)
  have ab: "abandoned ?q 0"
    by (simp add: run_def provider_init_def confirm_def abandoned_def settled_def)
  note a = slot_request_resolves_once [of ?p "[Ask delete_confirmation]"]
  note b = slot_request_resolves_once [of ?q "[Ask delete_confirmation, Ask delete_confirmation]"]
  from a d have "settled (handleConfirm ?p) 0 = Some True \<and>
      settled (handleCancel ?p) 0 = Some False \<and>
      resolution_count (handleConfirm ?p) 0 = 1 \<and>
      abandoned (snd (confirm delete_confirmation ?p)) 0"
    by fastforce
  moreover from b ab have "settled (run [Accept, Dismiss] ?q) 0 = None"
    by blast
  ultimately show ?thesis
    by simp
qed


end
